theory Spec2Isabelle
  imports Complex_Main
begin

section \<open>Values shared by the pipeline\<close>

text \<open>
  Numpy arrays are carried as lists: a one-dimensional array (a sound wave, a flattened
  slice, a frequency or time axis) is a list of rationals, a spectrogram a list of rows.
  The numerical libraries (librosa, scikit-learn, the spherical k-means and elbow plugins,
  the torch data loader) are collaborators outside the repository: each of their calls is a
  parameter of the function that makes it, and may raise.
\<close>

type_synonym ndarray = "rat list"
type_synonym ndarray2 = "rat list list"

datatype error = AssertionError | IndexError | ValueError | LibraryError string

section \<open>Spectrogram collate stages (collate/preprocessing/spectrogram/transform.py)\<close>

record stft_spec_config =
  stft_sample_rate :: int
  stft_n_fft :: int
  stft_window_size :: int
  stft_hop_size :: int
  stft_apply_log :: bool

record mel_spec_config =
  sample_rate :: int
  n_fft :: int
  n_mels :: int
  freq_min :: rat
  freq_max :: rat
  window_size :: int
  hop_size :: int
  apply_log :: bool

text \<open>The keyword arguments of one call of \<open>transform_stft_spectrogram\<close>.\<close>

record stft_kwargs =
  sk_sample_rate :: int
  sk_n_fft :: int
  sk_window_size :: int
  sk_hop_size :: int
  sk_apply_log :: bool

text \<open>The keyword arguments of one call of \<open>transform_mel_spectrogram\<close>.\<close>

record mel_kwargs =
  mk_sample_rate :: int
  mk_n_fft :: int
  mk_n_mels :: int
  mk_freq_min :: rat
  mk_freq_max :: rat
  mk_window_size :: int
  mk_hop_size :: int
  mk_apply_log :: bool

type_synonym spec_triple = "ndarray2 \<times> ndarray \<times> ndarray"
type_synonym wave_item = "string \<times> ndarray \<times> int"
type_synonym spec_item = "string \<times> ndarray2 \<times> ndarray \<times> ndarray \<times> int"

definition stft_call_kwargs :: "stft_spec_config \<Rightarrow> stft_kwargs" where
  "stft_call_kwargs config =
     \<lparr>sk_sample_rate = stft_sample_rate config, sk_n_fft = stft_n_fft config,
      sk_window_size = stft_window_size config, sk_hop_size = stft_hop_size config,
      sk_apply_log = stft_apply_log config\<rparr>"

text \<open>
  The loop of \<open>stft_spectrogram_collate\<close>: \<open>ret_data\<close> is the deque built so far, each
  item is appended on the right, an exception of the transform leaves the loop.
\<close>

fun stft_loop ::
  "(stft_kwargs \<Rightarrow> ndarray \<Rightarrow> error + spec_triple) \<Rightarrow> stft_spec_config \<Rightarrow>
   wave_item list \<Rightarrow> spec_item list \<Rightarrow> error + spec_item list" where
  "stft_loop transform config [] ret_data = Inr ret_data"
| "stft_loop transform config ((filename, sound_wave, label) # rest) ret_data =
     (case transform (stft_call_kwargs config) sound_wave of
        Inl e \<Rightarrow> Inl e
      | Inr (stft_spec, stft_freq, stft_time) \<Rightarrow>
          stft_loop transform config rest
            (ret_data @ [(filename, stft_spec, stft_freq, stft_time, label)]))"

definition stft_spectrogram_collate ::
  "(stft_kwargs \<Rightarrow> ndarray \<Rightarrow> error + spec_triple) \<Rightarrow> wave_item list \<Rightarrow>
   stft_spec_config \<Rightarrow> error + spec_item list" where
  "stft_spectrogram_collate transform data config = stft_loop transform config data []"

text \<open>
  \<open>mel_spectrogram_collate\<close> computes the upper frequency bound once, before the loop:
  the configured value when it is positive, half the sample rate otherwise.
\<close>

definition collate_freq_max :: "mel_spec_config \<Rightarrow> rat" where
  "collate_freq_max config =
     (if freq_max config > 0 then freq_max config else of_int (sample_rate config) / 2)"

definition mel_collate_kwargs :: "mel_spec_config \<Rightarrow> mel_kwargs" where
  "mel_collate_kwargs config =
     \<lparr>mk_sample_rate = sample_rate config, mk_n_fft = n_fft config,
      mk_n_mels = n_mels config, mk_freq_min = freq_min config,
      mk_freq_max = collate_freq_max config, mk_window_size = window_size config,
      mk_hop_size = hop_size config, mk_apply_log = apply_log config\<rparr>"

fun mel_loop ::
  "(mel_kwargs \<Rightarrow> ndarray \<Rightarrow> error + spec_triple) \<Rightarrow> mel_spec_config \<Rightarrow>
   wave_item list \<Rightarrow> spec_item list \<Rightarrow> error + spec_item list" where
  "mel_loop transform config [] ret_data = Inr ret_data"
| "mel_loop transform config ((filename, sound_wave, label) # rest) ret_data =
     (case transform (mel_collate_kwargs config) sound_wave of
        Inl e \<Rightarrow> Inl e
      | Inr (mel_spec, mel_freq, mel_time) \<Rightarrow>
          mel_loop transform config rest
            (ret_data @ [(filename, mel_spec, mel_freq, mel_time, label)]))"

definition mel_spectrogram_collate ::
  "(mel_kwargs \<Rightarrow> ndarray \<Rightarrow> error + spec_triple) \<Rightarrow> wave_item list \<Rightarrow>
   mel_spec_config \<Rightarrow> error + spec_item list" where
  "mel_spectrogram_collate transform data config = mel_loop transform config data []"

text \<open>The filename and the label of a batch item, before and after a stage.\<close>

definition wave_tag :: "wave_item \<Rightarrow> string \<times> int" where
  "wave_tag x = (fst x, snd (snd x))"

definition spec_tag :: "spec_item \<Rightarrow> string \<times> int" where
  "spec_tag y = (fst y, snd (snd (snd (snd y))))"

section \<open>The numpy floating-point error state\<close>

text \<open>
  \<open>np.seterr\<close> keeps one handling mode for each of four kinds of floating-point error in a
  process-wide table; \<open>np.seterr(divide=m)\<close> overwrites the entry for division and leaves
  the other three. (It also returns the old table, which no caller in this code keeps.)
\<close>

datatype err_mode = Ignore | Warn | Raise | Call | Print | Log

record np_errstate =
  err_divide :: err_mode
  err_over :: err_mode
  err_under :: err_mode
  err_invalid :: err_mode

definition np_default_errstate :: np_errstate where
  "np_default_errstate =
     \<lparr>err_divide = Warn, err_over = Warn, err_under = Ignore, err_invalid = Warn\<rparr>"

definition np_seterr_divide :: "err_mode \<Rightarrow> np_errstate \<Rightarrow> np_errstate" where
  "np_seterr_divide m st = st\<lparr>err_divide := m\<rparr>"

section \<open>Slice datasets (script/train/feature_engineering/feature_common.py)\<close>

record slice_dataset =
  filenames :: "string list"
  flat_slices :: "ndarray list list"
  sample_freqs :: "ndarray list"
  sample_times :: "ndarray list"
  labels :: "int list"

type_synonym raw_dataset =
  "string list \<times> ndarray list list \<times> ndarray list \<times> ndarray list \<times> int list"

definition mk_slice_dataset :: "raw_dataset \<Rightarrow> slice_dataset" where
  "mk_slice_dataset raw =
     (case raw of (fns, fs, sfs, sts, ls) \<Rightarrow>
        \<lparr>filenames = fns, flat_slices = fs, sample_freqs = sfs, sample_times = sts,
         labels = ls\<rparr>)"

text \<open>
  \<open>generate_slice_dataset\<close>. The first argument is the outcome of the call of
  \<open>train_common.generate_dataset\<close> (which loads and collates every batch): the exception it
  raised, or the raw datasets it returned. The second is the error state on entry; the
  error state on exit is returned with the result.
\<close>

definition generate_slice_dataset ::
  "(error + raw_dataset list) \<Rightarrow> np_errstate \<Rightarrow>
   np_errstate \<times> (error + slice_dataset \<times> slice_dataset)" where
  "generate_slice_dataset generate_dataset st =
     (let st1 = np_seterr_divide Ignore st in
      case generate_dataset of
        Inl e \<Rightarrow> (st1, Inl e)
      | Inr ret_raw_dataset \<Rightarrow>
          (let st2 = np_seterr_divide Warn st1;
               ret_dataset = map mk_slice_dataset ret_raw_dataset
           in (st2, if length ret_dataset < 2 then Inl IndexError
                    else Inr (ret_dataset ! 0, ret_dataset ! 1))))"

definition convert_to_ndarray :: "slice_dataset \<Rightarrow> error + ndarray list \<times> int list" where
  "convert_to_ndarray slice_dataset =
     (if length (labels slice_dataset) \<noteq> length (flat_slices slice_dataset)
      then Inl AssertionError
      else Inr (concat (flat_slices slice_dataset),
                concat (map (\<lambda>(curr_label, curr_file_slices).
                               replicate (length curr_file_slices) curr_label)
                          (zip (labels slice_dataset) (flat_slices slice_dataset)))))"

section \<open>Configuration objects (script/validate/bias\_variance.py)\<close>

text \<open>Only the fields that the modelled functions read are kept.\<close>

record reshape_config =
  slice_size :: int
  stride_size :: int

record pool_config =
  pool_size :: int
  pool_stride_size :: int

record skm_config =
  cfg_n_components :: rat
  cfg_normalize :: bool
  cfg_standardize :: bool
  cfg_whiten :: bool

record bias_variance_config_base =
  mel_spec_config :: mel_spec_config
  reshape_config :: reshape_config
  skm_config :: skm_config
  pool_config :: pool_config
  test_audio_path :: string

record bias_variance_config = bias_variance_config_base +
  k_min :: int
  k_max :: int
  k_step :: int

record bias_variance_fix_k_config = bias_variance_config_base +
  k_vals :: "int list"

section \<open>Python and numpy helpers\<close>

text \<open>\<open>range(start, stop, step)\<close>, as the list of its elements; a zero step raises.\<close>

definition range_len :: "int \<Rightarrow> int \<Rightarrow> int \<Rightarrow> nat" where
  "range_len start stop step =
     (if step > 0 then (if start < stop then nat ((stop - start - 1) div step + 1) else 0)
      else (if stop < start then nat ((start - stop - 1) div (- step) + 1) else 0))"

definition py_range :: "int \<Rightarrow> int \<Rightarrow> int \<Rightarrow> error + int list" where
  "py_range start stop step =
     (if step = 0 then Inl ValueError
      else Inr (map (\<lambda>i. start + int i * step) [0..<range_len start stop step]))"

text \<open>\<open>np.unique\<close> of a one-dimensional integer array: its distinct values, ascending.\<close>

definition np_unique :: "int list \<Rightarrow> int list" where
  "np_unique xs = sort (remdups xs)"

text \<open>
  \<open>np.bincount(x, minlength=m)\<close>: a negative entry raises; otherwise bin \<open>i\<close> counts the
  occurrences of \<open>i\<close>, for \<open>i\<close> below the larger of \<open>m\<close> and one more than the largest entry.
\<close>

definition np_bincount :: "int list \<Rightarrow> nat \<Rightarrow> error + int list" where
  "np_bincount x minlength =
     (if \<exists>v \<in> set x. v < 0 then Inl ValueError
      else Inr (map (\<lambda>i. int (count_list x (int i)))
                  [0..<max minlength (nat (fold max x (- 1) + 1))]))"

text \<open>
  True division of two numpy integers gives a float: the quotient (taken here as the exact
  rational), or, for a zero divisor, \<open>nan\<close> or an infinity, with a warning and no exception.
\<close>

datatype np_float = Finite rat | NaN | PosInf | NegInf

definition np_true_divide :: "int \<Rightarrow> int \<Rightarrow> np_float" where
  "np_true_divide a b =
     (if b \<noteq> 0 then Finite (of_int a / of_int b)
      else if a = 0 then NaN else if a > 0 then PosInf else NegInf)"

section \<open>Codebook fitting (script/validate/bias\_variance.py)\<close>

text \<open>
  A \<open>SphericalKMeans\<close> object: the keyword arguments its constructor was given
  (\<open>skm_n_clusters\<close> is \<open>None\<close> when the call leaves \<open>n_clusters\<close> to the library's default),
  and what a call of its \<open>fit\<close> method leaves behind: \<open>fit_X\<close> records the array the
  method was called on, \<open>fitted\<close> the state the library computed from it.
\<close>

record 'c spherical_kmeans =
  skm_n_clusters :: "int option"
  skm_n_components :: rat
  skm_normalize :: bool
  skm_standardize :: bool
  skm_whiten :: bool
  skm_copy :: bool
  skm_max_iter :: int
  fit_X :: "ndarray list option"
  fitted :: "'c option"

text \<open>
  The library calls. Both take the state \<open>'g\<close> of the library's random number generator,
  which the code never sets, and return it advanced; both may raise.
  \<^item> fitting a codebook: the object, the training array;
  \<^item> fitting the elbow visualizer: the estimator, the candidate cluster counts, the
    training array; the result is what the code then reads, \<open>elbow_value_\<close> and
    \<open>k_scores_\<close>.
\<close>

type_synonym ('c, 'g) skm_fit =
  "'c spherical_kmeans \<Rightarrow> ndarray list \<Rightarrow> 'g \<Rightarrow> (error + 'c) \<times> 'g"

type_synonym ('c, 'g) elbow_fit =
  "'c spherical_kmeans \<Rightarrow> int list \<Rightarrow> ndarray list \<Rightarrow> 'g \<Rightarrow>
   (error + int option \<times> rat list) \<times> 'g"

text \<open>The constructor call of lines 198-203, which gives no \<open>n_clusters\<close>.\<close>

definition estimator_skm :: "skm_config \<Rightarrow> 'c spherical_kmeans" where
  "estimator_skm sc =
     \<lparr>skm_n_clusters = None, skm_n_components = cfg_n_components sc,
      skm_normalize = cfg_normalize sc, skm_standardize = cfg_standardize sc,
      skm_whiten = cfg_whiten sc, skm_copy = True, skm_max_iter = 10000,
      fit_X = None, fitted = None\<rparr>"

text \<open>The constructor call of lines 219-226 and of lines 263-270.\<close>

definition cluster_skm :: "int \<Rightarrow> skm_config \<Rightarrow> 'c spherical_kmeans" where
  "cluster_skm k_val sc =
     \<lparr>skm_n_clusters = Some k_val, skm_n_components = cfg_n_components sc,
      skm_normalize = cfg_normalize sc, skm_standardize = cfg_standardize sc,
      skm_whiten = cfg_whiten sc, skm_copy = True, skm_max_iter = 10000,
      fit_X = None, fitted = None\<rparr>"

definition after_fit :: "'c spherical_kmeans \<Rightarrow> ndarray list \<Rightarrow> 'c \<Rightarrow> 'c spherical_kmeans" where
  "after_fit skm X c = skm\<lparr>fit_X := Some X, fitted := Some c\<rparr>"





text \<open>
  The block that materializes the batches, which \<open>try_fit_skms\<close>, \<open>fit_skms\<close>,
  \<open>train_classifier\<close> and \<open>val_classifier\<close> each contain in the same words:
  \<^verbatim>\<open>
    np.seterr(divide="ignore")
    for batch in loader:
        batches_tmp.append(batch)
    np.seterr(divide="ignore")
  \<close>
  The first argument is the outcome of iterating the data loader: the exception raised on
  the way, or the batches.
\<close>

definition materialize_batches ::
  "(error + 'b list) \<Rightarrow> np_errstate \<Rightarrow> np_errstate \<times> (error + 'b list)" where
  "materialize_batches loader st =
     (let st1 = np_seterr_divide Ignore st in
      case loader of
        Inl e \<Rightarrow> (st1, Inl e)
      | Inr batches_tmp \<Rightarrow> (np_seterr_divide Ignore st1, Inr batches_tmp))"

type_synonym 'c sweep_acc = "'c spherical_kmeans list \<times> int list \<times> rat list list"

text \<open>
  The loop of \<open>try_fit_skms\<close> over \<open>unique_labels\<close>, with the three lists built so far
  (\<open>skms\<close>, \<open>k_vals\<close> and \<open>k_scores\<close> of the source).
  The loop variable \<open>curr_label\<close> is not read in the body.
\<close>

fun try_fit_loop ::
  "('c, 'g) elbow_fit \<Rightarrow> ('c, 'g) skm_fit \<Rightarrow> bias_variance_config \<Rightarrow> ndarray list \<Rightarrow>
   int list \<Rightarrow> 'c sweep_acc \<Rightarrow> 'g \<Rightarrow> (error + 'c sweep_acc) \<times> 'g" where
  "try_fit_loop visualizer_fit skm_fit configs slices [] acc g = (Inr acc, g)"
| "try_fit_loop visualizer_fit skm_fit configs slices (curr_label # rest)
     (skms, kvals, kscores) g =
     (case py_range (k_min configs) (k_max configs) (k_step configs) of
        Inl e \<Rightarrow> (Inl e, g)
      | Inr ks \<Rightarrow>
          (case visualizer_fit (estimator_skm (skm_config configs)) ks slices g of
             (Inl e, g1) \<Rightarrow> (Inl e, g1)
           | (Inr (None, scores), g1) \<Rightarrow>
               try_fit_loop visualizer_fit skm_fit configs slices rest
                 (skms, kvals @ [- 1], kscores @ [[]]) g1
           | (Inr (Some k_val, scores), g1) \<Rightarrow>
               (case skm_fit (cluster_skm k_val (skm_config configs)) slices g1 of
                  (Inl e, g2) \<Rightarrow> (Inl e, g2)
                | (Inr c, g2) \<Rightarrow>
                    try_fit_loop visualizer_fit skm_fit configs slices rest
                      (skms @ [after_fit (cluster_skm k_val (skm_config configs)) slices c],
                       kvals @ [k_val], kscores @ [scores]) g2)))"

text \<open>
  \<open>try_fit_skms\<close>. \<open>loader\<close> is the outcome of iterating the data loader and
  \<open>combine_batches\<close> the function of \<open>batch_utils\<close>; the result carries the numpy error
  state and the library state on exit.
\<close>

definition try_fit_skms ::
  "('c, 'g) elbow_fit \<Rightarrow> ('c, 'g) skm_fit \<Rightarrow> (error + 'b list) \<Rightarrow>
   ('b list \<Rightarrow> error + raw_dataset) \<Rightarrow> bias_variance_config \<Rightarrow> np_errstate \<Rightarrow> 'g \<Rightarrow>
   np_errstate \<times> 'g \<times> (error + 'c sweep_acc)" where
  "try_fit_skms visualizer_fit skm_fit loader combine_batches configs st g =
     (case materialize_batches loader st of
        (st1, Inl e) \<Rightarrow> (st1, g, Inl e)
      | (st1, Inr batches_tmp) \<Rightarrow>
          (case combine_batches batches_tmp of
             Inl e \<Rightarrow> (st1, g, Inl e)
           | Inr raw \<Rightarrow>
               (case convert_to_ndarray (mk_slice_dataset raw) of
                  Inl e \<Rightarrow> (st1, g, Inl e)
                | Inr (slices, slice_labels) \<Rightarrow>
                    (case try_fit_loop visualizer_fit skm_fit configs slices
                            (np_unique slice_labels) ([], [], []) g of
                       (r, g') \<Rightarrow> (st1, g', r)))))"

text \<open>The loop of \<open>fit_skms\<close> over \<open>zip(unique_labels, configs.k_vals)\<close>.\<close>

fun fit_loop ::
  "('c, 'g) skm_fit \<Rightarrow> bias_variance_fix_k_config \<Rightarrow> ndarray list \<Rightarrow> (int \<times> int) list \<Rightarrow>
   'c spherical_kmeans list \<Rightarrow> 'g \<Rightarrow> (error + 'c spherical_kmeans list) \<times> 'g" where
  "fit_loop skm_fit configs slices [] skms g = (Inr skms, g)"
| "fit_loop skm_fit configs slices ((curr_label, k_val) # rest) skms g =
     (case skm_fit (cluster_skm k_val (skm_config configs)) slices g of
        (Inl e, g1) \<Rightarrow> (Inl e, g1)
      | (Inr c, g1) \<Rightarrow>
          fit_loop skm_fit configs slices rest
            (skms @ [after_fit (cluster_skm k_val (skm_config configs)) slices c]) g1)"

definition fit_skms ::
  "('c, 'g) skm_fit \<Rightarrow> (error + 'b list) \<Rightarrow> ('b list \<Rightarrow> error + raw_dataset) \<Rightarrow>
   bias_variance_fix_k_config \<Rightarrow> np_errstate \<Rightarrow> 'g \<Rightarrow>
   np_errstate \<times> 'g \<times> (error + 'c spherical_kmeans list)" where
  "fit_skms skm_fit loader combine_batches configs st g =
     (case materialize_batches loader st of
        (st1, Inl e) \<Rightarrow> (st1, g, Inl e)
      | (st1, Inr batches_tmp) \<Rightarrow>
          (case combine_batches batches_tmp of
             Inl e \<Rightarrow> (st1, g, Inl e)
           | Inr raw \<Rightarrow>
               (case convert_to_ndarray (mk_slice_dataset raw) of
                  Inl e \<Rightarrow> (st1, g, Inl e)
                | Inr (slices, slice_labels) \<Rightarrow>
                    (case fit_loop skm_fit configs slices
                            (zip (np_unique slice_labels) (k_vals configs)) [] g of
                       (r, g') \<Rightarrow> (st1, g', r)))))"

text \<open>
  The values of \<open>visualizer.elbow_value_\<close> that the loop of \<open>try_fit_skms\<close> reads at line
  211, one for each iteration it completes: the same run as \<open>try_fit_loop\<close>, keeping the
  elbow values instead of the three lists.
\<close>

fun elbow_values ::
  "('c, 'g) elbow_fit \<Rightarrow> ('c, 'g) skm_fit \<Rightarrow> bias_variance_config \<Rightarrow> ndarray list \<Rightarrow>
   int list \<Rightarrow> 'g \<Rightarrow> int option list" where
  "elbow_values visualizer_fit skm_fit configs slices [] g = []"
| "elbow_values visualizer_fit skm_fit configs slices (curr_label # rest) g =
     (case py_range (k_min configs) (k_max configs) (k_step configs) of
        Inl e \<Rightarrow> []
      | Inr ks \<Rightarrow>
          (case visualizer_fit (estimator_skm (skm_config configs)) ks slices g of
             (Inl e, g1) \<Rightarrow> []
           | (Inr (None, scores), g1) \<Rightarrow>
               None # elbow_values visualizer_fit skm_fit configs slices rest g1
           | (Inr (Some k_val, scores), g1) \<Rightarrow>
               (case skm_fit (cluster_skm k_val (skm_config configs)) slices g1 of
                  (Inl e, g2) \<Rightarrow> []
                | (Inr c, g2) \<Rightarrow>
                    Some k_val # elbow_values visualizer_fit skm_fit configs slices rest g2)))"

text \<open>The positions of a list of elbow values at which an elbow was detected.\<close>

definition detected :: "int option list \<Rightarrow> nat list" where
  "detected ev = filter (\<lambda>i. ev ! i \<noteq> None) [0..<length ev]"

text \<open>The slices of a dataset that come from files labelled \<open>c\<close>.\<close>

definition class_slices :: "slice_dataset \<Rightarrow> int \<Rightarrow> ndarray list" where
  "class_slices ds c =
     concat (map snd (filter (\<lambda>(l, fs). l = c) (zip (labels ds) (flat_slices ds))))"

section \<open>Single-file inference (script/validate/bias\_variance.py)\<close>

datatype pool_func = MeanStdPool

text \<open>
  The collaborators that \<open>infer_single_audio\<close> calls, in the order of the calls:
  \<open>librosa.core.load\<close> (path, \<open>sr\<close>, \<open>mono\<close>), \<open>transform_mel_spectrogram\<close>,
  \<open>slice_spectrogram\<close> (spectrogram, slice size, stride), \<open>flatten_slice\<close> (slice,
  \<open>copy\<close>), \<open>proj_skl_skm\<close> (flat slices, codebooks), \<open>apply_pool_func\<close> (projections,
  pooling function, pool size, stride) and the classifier's \<open>predict\<close>.
\<close>

record ('s, 'p) pipeline_lib =
  rosa_load :: "string \<Rightarrow> int \<Rightarrow> bool \<Rightarrow> error + ndarray \<times> int"
  transform_mel_spectrogram :: "mel_kwargs \<Rightarrow> ndarray \<Rightarrow> error + spec_triple"
  slice_spectrogram :: "ndarray2 \<Rightarrow> int \<Rightarrow> int \<Rightarrow> error + ndarray2 list"
  flatten_slice :: "ndarray2 \<Rightarrow> bool \<Rightarrow> error + ndarray"
  proj_skl_skm :: "ndarray list \<Rightarrow> 's list \<Rightarrow> error + ndarray2"
  apply_pool_func :: "ndarray2 \<Rightarrow> pool_func \<Rightarrow> int \<Rightarrow> int \<Rightarrow> error + ndarray list"
  predict :: "'p \<Rightarrow> ndarray list \<Rightarrow> error + int list"

definition on_ok :: "error + 'a \<Rightarrow> ('a \<Rightarrow> error + 'b) \<Rightarrow> error + 'b" where
  "on_ok r f = (case r of Inl e \<Rightarrow> Inl e | Inr x \<Rightarrow> f x)"

text \<open>
  The keyword arguments \<open>infer_single_audio\<close> gives to \<open>transform_mel_spectrogram\<close>
  (lines 369-378): every field of the configuration as it is.
\<close>

definition infer_mel_kwargs :: "mel_spec_config \<Rightarrow> mel_kwargs" where
  "infer_mel_kwargs config =
     \<lparr>mk_sample_rate = sample_rate config, mk_n_fft = n_fft config,
      mk_n_mels = n_mels config, mk_freq_min = freq_min config,
      mk_freq_max = freq_max config, mk_window_size = window_size config,
      mk_hop_size = hop_size config, mk_apply_log = apply_log config\<rparr>"

fun flatten_loop ::
  "(ndarray2 \<Rightarrow> bool \<Rightarrow> error + ndarray) \<Rightarrow> ndarray2 list \<Rightarrow> ndarray list \<Rightarrow>
   error + ndarray list" where
  "flatten_loop flatten [] flats = Inr flats"
| "flatten_loop flatten (slice # rest) flats =
     (case flatten slice True of
        Inl e \<Rightarrow> Inl e
      | Inr flat \<Rightarrow> flatten_loop flatten rest (flats @ [flat]))"

text \<open>Lines 366-393 of \<open>infer_single_audio\<close>: from the audio file to \<open>pred\<close>.\<close>

definition infer_predictions ::
  "('s, 'p) pipeline_lib \<Rightarrow> 's list \<Rightarrow> 'p \<Rightarrow> 'a bias_variance_config_base_scheme \<Rightarrow>
   error + int list" where
  "infer_predictions lib skms classifier configs =
     on_ok (rosa_load lib (test_audio_path configs)
              (sample_rate (mel_spec_config configs)) True)
       (\<lambda>(sound_wave, sr).
     on_ok (transform_mel_spectrogram lib (infer_mel_kwargs (mel_spec_config configs))
              sound_wave)
       (\<lambda>(mel_spec, mel_freq, mel_time).
     on_ok (slice_spectrogram lib mel_spec (slice_size (reshape_config configs))
              (stride_size (reshape_config configs)))
       (\<lambda>slices.
     on_ok (flatten_loop (flatten_slice lib) slices [])
       (\<lambda>flats.
     on_ok (proj_skl_skm lib flats skms)
       (\<lambda>proj_slices.
     on_ok (apply_pool_func lib proj_slices MeanStdPool (pool_size (pool_config configs))
              (pool_stride_size (pool_config configs)))
       (\<lambda>pool_slices. predict lib classifier pool_slices))))))"

text \<open>Lines 395-396: \<open>res = np.bincount(pred, minlength=2)\<close>, then the quotient.\<close>

definition bincount_ratio :: "int list \<Rightarrow> error + np_float" where
  "bincount_ratio pred =
     on_ok (np_bincount pred 2)
       (\<lambda>res. Inr (np_true_divide (res ! 0) (res ! 0 + res ! 1)))"

definition infer_single_audio ::
  "('s, 'p) pipeline_lib \<Rightarrow> 's list \<Rightarrow> 'p \<Rightarrow> 'a bias_variance_config_base_scheme \<Rightarrow>
   error + np_float" where
  "infer_single_audio lib skms classifier configs =
     on_ok (infer_predictions lib skms classifier configs) bincount_ratio"

section \<open>Concrete inputs\<close>

text \<open>Small inputs on which the functions above are run in the closed theorems below.\<close>

definition ex_stft_config :: stft_spec_config where
  "ex_stft_config =
     \<lparr>stft_sample_rate = 16000, stft_n_fft = 1024, stft_window_size = 1024,
      stft_hop_size = 512, stft_apply_log = True\<rparr>"

definition ex_mel_config :: mel_spec_config where
  "ex_mel_config =
     \<lparr>sample_rate = 16000, n_fft = 1024, n_mels = 40, freq_min = 0, freq_max = - 1,
      window_size = 1024, hop_size = 512, apply_log = True\<rparr>"

definition ex_batch :: "wave_item list" where
  "ex_batch = [(''a.wav'', [1, 2], 0), (''b.wav'', [3], 1)]"

text \<open>Stand-ins for the two transforms: one row, and the bound they were given as axis.\<close>

definition ex_stft :: "stft_kwargs \<Rightarrow> ndarray \<Rightarrow> error + spec_triple" where
  "ex_stft kw w = Inr ([w], [of_int (sk_sample_rate kw) / 2], [0])"

definition ex_mel :: "mel_kwargs \<Rightarrow> ndarray \<Rightarrow> error + spec_triple" where
  "ex_mel kw w = Inr ([w], [mk_freq_max kw], [0])"

definition ex_specs :: "spec_item list" where
  "ex_specs = [(''a.wav'', [[1, 2]], [8000], [0], 0), (''b.wav'', [[3]], [8000], [0], 1)]"

definition ex_skm_config :: skm_config where
  "ex_skm_config =
     \<lparr>cfg_n_components = 4 / 5, cfg_normalize = True, cfg_standardize = True,
      cfg_whiten = True\<rparr>"

definition ex_sweep_config :: bias_variance_config where
  "ex_sweep_config =
     \<lparr>mel_spec_config = ex_mel_config,
      reshape_config = \<lparr>slice_size = 16, stride_size = 8\<rparr>,
      skm_config = ex_skm_config,
      pool_config = \<lparr>pool_size = 4, pool_stride_size = 2\<rparr>,
      test_audio_path = ''test.wav'', k_min = 2, k_max = 6, k_step = 1\<rparr>"

definition ex_fix_k_config :: "int list \<Rightarrow> bias_variance_fix_k_config" where
  "ex_fix_k_config ks =
     \<lparr>mel_spec_config = ex_mel_config,
      reshape_config = \<lparr>slice_size = 16, stride_size = 8\<rparr>,
      skm_config = ex_skm_config,
      pool_config = \<lparr>pool_size = 4, pool_stride_size = 2\<rparr>,
      test_audio_path = ''test.wav'', k_vals = ks\<rparr>"

definition ex_raw :: raw_dataset where
  "ex_raw =
     ([''a.wav'', ''b.wav'', ''c.wav''], [[[1, 0]], [[0, 1]], [[1, 1]]],
      [[0], [0], [0]], [[0], [0], [0]], [2, 0, 1])"

definition ex_slices :: "ndarray list" where
  "ex_slices = [[1, 0], [0, 1], [1, 1]]"

definition ex_loader :: "error + raw_dataset list" where
  "ex_loader = Inr [ex_raw]"

definition ex_combine :: "raw_dataset list \<Rightarrow> error + raw_dataset" where
  "ex_combine bs = (case bs of [] \<Rightarrow> Inl (LibraryError ''no batch'') | b # _ \<Rightarrow> Inr b)"

text \<open>
  Stand-ins for the library: the state of its generator is a counter that every call
  advances. \<open>ex_skm_fit\<close> returns the state it was called in as the fitted state,
  \<open>ex_visualizer\<close> finds no elbow in state 0 and an elbow that depends on the state
  otherwise, and \<open>ex_flat_visualizer\<close> scores every candidate alike and finds no elbow.
\<close>

definition ex_skm_fit :: "(int, int) skm_fit" where
  "ex_skm_fit skm X g = (Inr g, g + 1)"

definition ex_visualizer :: "(int, int) elbow_fit" where
  "ex_visualizer est ks X g =
     (Inr (if g = 0 then None else Some (g + 1), map (\<lambda>k. 1 / of_int k) ks), g + 1)"

definition ex_flat_visualizer :: "(int, int) elbow_fit" where
  "ex_flat_visualizer est ks X g = (Inr (None, map (\<lambda>k. 1) ks), g + 1)"

definition ex_scores :: "rat list" where
  "ex_scores = [1 / 2, 1 / 3, 1 / 4, 1 / 5]"

definition ex_fitted :: "int \<Rightarrow> int \<Rightarrow> int spherical_kmeans" where
  "ex_fitted k g = after_fit (cluster_skm k ex_skm_config) ex_slices g"

text \<open>
  Stand-ins for the collaborators of single-file inference; the classifier predicts the
  given labels.
\<close>

definition ex_lib :: "int list \<Rightarrow> (unit, unit) pipeline_lib" where
  "ex_lib pred =
     \<lparr>rosa_load = (\<lambda>path sr mono. Inr ([0, 1], sr)),
      transform_mel_spectrogram = ex_mel,
      slice_spectrogram = (\<lambda>spec sz st. Inr [spec]),
      flatten_slice = (\<lambda>s copy. Inr (concat s)),
      proj_skl_skm = (\<lambda>flats skms. Inr flats),
      apply_pool_func = (\<lambda>projs f sz st. Inr projs),
      predict = (\<lambda>clf pooled. Inr pred)\<rparr>"

definition ex_pred_9_of_12 :: "int list" where
  "ex_pred_9_of_12 = [0, 0, 0, 1, 0, 0, 1, 0, 0, 0, 1, 0]"

section \<open>Properties of the collate stages\<close>

lemma stft_loop_tags:
  "stft_loop t c data acc = Inr out \<Longrightarrow>
   map spec_tag out = map spec_tag acc @ map wave_tag data"
  by (induction t c data acc rule: stft_loop.induct)
     (auto simp: spec_tag_def wave_tag_def split: sum.splits)

lemma mel_loop_tags:
  "mel_loop t c data acc = Inr out \<Longrightarrow>
   map spec_tag out = map spec_tag acc @ map wave_tag data"
  by (induction t c data acc rule: mel_loop.induct)
     (auto simp: spec_tag_def wave_tag_def split: sum.splits)

lemma stft_loop_returns:
  "\<forall>x \<in> set data. \<exists>r. t (stft_call_kwargs c) (fst (snd x)) = Inr r \<Longrightarrow>
   \<exists>out. stft_loop t c data acc = Inr out"
  by (induction t c data acc rule: stft_loop.induct) (auto split: sum.splits)

lemma mel_loop_returns:
  "\<forall>x \<in> set data. \<exists>r. t (mel_collate_kwargs c) (fst (snd x)) = Inr r \<Longrightarrow>
   \<exists>out. mel_loop t c data acc = Inr out"
  by (induction t c data acc rule: mel_loop.induct) (auto split: sum.splits)

lemma tags_nth:
  assumes "map spec_tag out = map wave_tag data"
  shows "length out = length data \<and>
         (\<forall>i < length data. spec_tag (out ! i) = wave_tag (data ! i))"
proof -
  have len: "length out = length data" using assms by (metis length_map)
  moreover have "spec_tag (out ! i) = wave_tag (data ! i)" if "i < length data" for i
    using assms that len by (metis nth_map)
  ultimately show ?thesis by blast
qed

text \<open>
  C8. Whenever \<open>stft_spectrogram_collate\<close> or \<open>mel_spectrogram_collate\<close> returns, its
  output has as many items as its input, and the item at each position carries the
  filename and the label of the input item at that position: no file is dropped,
  duplicated or reordered. Each stage returns whenever the transform raises on no item of
  the batch.
\<close>

theorem collate_keeps_files:
  "(stft_spectrogram_collate ts data sc = Inr out \<longrightarrow>
      length out = length data \<and>
      (\<forall>i < length data. spec_tag (out ! i) = wave_tag (data ! i))) \<and>
   (mel_spectrogram_collate tm data mc = Inr out' \<longrightarrow>
      length out' = length data \<and>
      (\<forall>i < length data. spec_tag (out' ! i) = wave_tag (data ! i))) \<and>
   ((\<forall>x \<in> set data. \<exists>r. ts (stft_call_kwargs sc) (fst (snd x)) = Inr r) \<longrightarrow>
      (\<exists>out. stft_spectrogram_collate ts data sc = Inr out)) \<and>
   ((\<forall>x \<in> set data. \<exists>r. tm (mel_collate_kwargs mc) (fst (snd x)) = Inr r) \<longrightarrow>
      (\<exists>out. mel_spectrogram_collate tm data mc = Inr out))"
proof -
  have a: "length out = length data \<and>
      (\<forall>i < length data. spec_tag (out ! i) = wave_tag (data ! i))"
    if "stft_spectrogram_collate ts data sc = Inr out"
  proof -
    have "map spec_tag out = map wave_tag data"
      using that unfolding stft_spectrogram_collate_def using stft_loop_tags by fastforce
    then show ?thesis by (rule tags_nth)
  qed
  have b: "length out' = length data \<and>
      (\<forall>i < length data. spec_tag (out' ! i) = wave_tag (data ! i))"
    if "mel_spectrogram_collate tm data mc = Inr out'"
  proof -
    have "map spec_tag out' = map wave_tag data"
      using that unfolding mel_spectrogram_collate_def using mel_loop_tags by fastforce
    then show ?thesis by (rule tags_nth)
  qed
  have c: "\<exists>out. stft_spectrogram_collate ts data sc = Inr out"
    if "\<forall>x \<in> set data. \<exists>r. ts (stft_call_kwargs sc) (fst (snd x)) = Inr r"
    using that unfolding stft_spectrogram_collate_def by (rule stft_loop_returns)
  have d: "\<exists>out. mel_spectrogram_collate tm data mc = Inr out"
    if "\<forall>x \<in> set data. \<exists>r. tm (mel_collate_kwargs mc) (fst (snd x)) = Inr r"
    using that unfolding mel_spectrogram_collate_def by (rule mel_loop_returns)
  from a b c d show ?thesis by blast
qed

theorem collate_keeps_files_witness:
  "stft_spectrogram_collate ex_stft ex_batch ex_stft_config = Inr ex_specs \<and>
   mel_spectrogram_collate ex_mel ex_batch ex_mel_config = Inr ex_specs \<and>
   list_all (\<lambda>x. \<exists>r. ex_stft (stft_call_kwargs ex_stft_config) (fst (snd x)) = Inr r)
     ex_batch \<and>
   list_all (\<lambda>x. \<exists>r. ex_mel (mel_collate_kwargs ex_mel_config) (fst (snd x)) = Inr r)
     ex_batch \<and>
   length ex_specs = length ex_batch \<and> length ex_batch = 2 \<and>
   spec_tag (ex_specs ! 0) = wave_tag (ex_batch ! 0) \<and>
   spec_tag (ex_specs ! 1) = wave_tag (ex_batch ! 1) \<and>
   (\<exists>out. stft_spectrogram_collate ex_stft ex_batch ex_stft_config = Inr out) \<and>
   (\<exists>out. mel_spectrogram_collate ex_mel ex_batch ex_mel_config = Inr out)"
proof -
  have h1: "stft_spectrogram_collate ex_stft ex_batch ex_stft_config = Inr ex_specs"
    by (simp add: stft_spectrogram_collate_def ex_batch_def ex_stft_def ex_stft_config_def
          stft_call_kwargs_def ex_specs_def)
  have h2: "mel_spectrogram_collate ex_mel ex_batch ex_mel_config = Inr ex_specs"
    by (simp add: mel_spectrogram_collate_def ex_batch_def ex_mel_def ex_mel_config_def
          mel_collate_kwargs_def collate_freq_max_def ex_specs_def)
  have h3: "\<forall>x \<in> set ex_batch.
      \<exists>r. ex_stft (stft_call_kwargs ex_stft_config) (fst (snd x)) = Inr r"
    by (simp add: ex_stft_def)
  have h4: "\<forall>x \<in> set ex_batch.
      \<exists>r. ex_mel (mel_collate_kwargs ex_mel_config) (fst (snd x)) = Inr r"
    by (simp add: ex_mel_def)
  have len: "length ex_batch = 2" by (simp add: ex_batch_def)
  from collate_keeps_files[where ts = ex_stft and data = ex_batch and sc = ex_stft_config
      and tm = ex_mel and mc = ex_mel_config and out = ex_specs and out' = ex_specs]
    h1 h2 h3 h4
  have "length ex_specs = length ex_batch"
    and "\<forall>i < length ex_batch. spec_tag (ex_specs ! i) = wave_tag (ex_batch ! i)"
    and "\<exists>out. stft_spectrogram_collate ex_stft ex_batch ex_stft_config = Inr out"
    and "\<exists>out. mel_spectrogram_collate ex_mel ex_batch ex_mel_config = Inr out"
    by blast+
  with h1 h2 h3 h4 len show ?thesis by (simp add: list_all_iff)
qed

section \<open>Properties of the codebook fitting loops\<close>

lemma try_fit_loop_acc:
  "try_fit_loop vis fit c X ls (s0, k0, ks0) g =
     (case try_fit_loop vis fit c X ls ([], [], []) g of
        (Inl e, g') \<Rightarrow> (Inl e, g')
      | (Inr (s, k, ks), g') \<Rightarrow> (Inr (s0 @ s, k0 @ k, ks0 @ ks), g'))"
proof (induction ls arbitrary: s0 k0 ks0 g)
  case Nil
  show ?case by simp
next
  case (Cons l rest)
  show ?case
  proof (cases "py_range (k_min c) (k_max c) (k_step c)")
    case (Inl e)
    then show ?thesis by simp
  next
    case (Inr ks)
    obtain r g1 where v: "vis (estimator_skm (skm_config c)) ks X g = (r, g1)"
      by (cases "vis (estimator_skm (skm_config c)) ks X g")
    show ?thesis
    proof (cases r)
      case (Inl e)
      with Inr v show ?thesis by simp
    next
      case r: (Inr p)
      obtain ev sc where p: "p = (ev, sc)" by (cases p)
      show ?thesis
      proof (cases ev)
        case None
        show ?thesis
          using Cons.IH[of s0 "k0 @ [- 1]" "ks0 @ [[]]" g1] Cons.IH[of "[]" "[- 1]" "[[]]" g1]
          by (simp add: Inr v r p None split: prod.splits sum.splits)
      next
        case (Some k)
        obtain r2 g2 where f: "fit (cluster_skm k (skm_config c)) X g1 = (r2, g2)"
          by (cases "fit (cluster_skm k (skm_config c)) X g1")
        show ?thesis
        proof (cases r2)
          case (Inl e)
          then show ?thesis by (simp add: Inr v r p Some f)
        next
          case c2: (Inr cc)
          show ?thesis
            using Cons.IH[of "s0 @ [after_fit (cluster_skm k (skm_config c)) X cc]"
                             "k0 @ [k]" "ks0 @ [sc]" g2]
                  Cons.IH[of "[after_fit (cluster_skm k (skm_config c)) X cc]" "[k]" "[sc]" g2]
            by (simp add: Inr v r p Some f c2 split: prod.splits sum.splits)
        qed
      qed
    qed
  qed
qed

lemma try_fit_loop_Cons:
  assumes "try_fit_loop vis fit c X (l # rest) ([], [], []) g = (Inr (skms, kv, kss), g')"
  shows "\<exists>ks v sc g1. py_range (k_min c) (k_max c) (k_step c) = Inr ks \<and>
           vis (estimator_skm (skm_config c)) ks X g = (Inr (v, sc), g1) \<and>
           (case v of
              None \<Rightarrow> \<exists>s' k' ks'.
                try_fit_loop vis fit c X rest ([], [], []) g1 = (Inr (s', k', ks'), g') \<and>
                skms = s' \<and> kv = - 1 # k' \<and> kss = [] # ks'
            | Some k \<Rightarrow> \<exists>cc g2 s' k' ks'.
                fit (cluster_skm k (skm_config c)) X g1 = (Inr cc, g2) \<and>
                try_fit_loop vis fit c X rest ([], [], []) g2 = (Inr (s', k', ks'), g') \<and>
                skms = after_fit (cluster_skm k (skm_config c)) X cc # s' \<and>
                kv = k # k' \<and> kss = sc # ks')"
proof (cases "py_range (k_min c) (k_max c) (k_step c)")
  case (Inl e)
  with assms show ?thesis by simp
next
  case (Inr ks)
  obtain r g1 where v: "vis (estimator_skm (skm_config c)) ks X g = (r, g1)"
    by (cases "vis (estimator_skm (skm_config c)) ks X g")
  show ?thesis
  proof (cases r)
    case (Inl e)
    with assms Inr v show ?thesis by simp
  next
    case r: (Inr p)
    obtain ev sc where p: "p = (ev, sc)" by (cases p)
    show ?thesis
    proof (cases ev)
      case None
      from assms have "try_fit_loop vis fit c X rest ([], [- 1], [[]]) g1 = (Inr (skms, kv, kss), g')"
        by (simp add: Inr v r p None)
      then show ?thesis
        using try_fit_loop_acc[of vis fit c X rest "[]" "[- 1]" "[[]]" g1]
        by (auto simp add: Inr v r p None split: prod.splits sum.splits)
    next
      case (Some k)
      obtain r2 g2 where f: "fit (cluster_skm k (skm_config c)) X g1 = (r2, g2)"
        by (cases "fit (cluster_skm k (skm_config c)) X g1")
      show ?thesis
      proof (cases r2)
        case (Inl e)
        with assms show ?thesis by (simp add: Inr v r p Some f)
      next
        case c2: (Inr cc)
        from assms have "try_fit_loop vis fit c X rest
            ([after_fit (cluster_skm k (skm_config c)) X cc], [k], [sc]) g2 = (Inr (skms, kv, kss), g')"
          by (simp add: Inr v r p Some f c2)
        then show ?thesis
          using try_fit_loop_acc[of vis fit c X rest
                  "[after_fit (cluster_skm k (skm_config c)) X cc]" "[k]" "[sc]" g2]
          by (auto simp add: Inr v r p Some f c2 split: prod.splits sum.splits)
      qed
    qed
  qed
qed

lemma elbow_values_Cons_None:
  "py_range (k_min c) (k_max c) (k_step c) = Inr ks \<Longrightarrow>
   vis (estimator_skm (skm_config c)) ks X g = (Inr (None, sc), g1) \<Longrightarrow>
   elbow_values vis fit c X (l # rest) g = None # elbow_values vis fit c X rest g1"
  by simp

lemma elbow_values_Cons_Some:
  "py_range (k_min c) (k_max c) (k_step c) = Inr ks \<Longrightarrow>
   vis (estimator_skm (skm_config c)) ks X g = (Inr (Some k, sc), g1) \<Longrightarrow>
   fit (cluster_skm k (skm_config c)) X g1 = (Inr cc, g2) \<Longrightarrow>
   elbow_values vis fit c X (l # rest) g = Some k # elbow_values vis fit c X rest g2"
  by simp

lemma try_fit_loop_trace:
  "try_fit_loop vis fit c X ls ([], [], []) g = (Inr (skms, kv, kss), g') \<Longrightarrow>
   length (elbow_values vis fit c X ls g) = length ls \<and>
   kv = map (case_option (- 1) id) (elbow_values vis fit c X ls g) \<and>
   list_all2 (\<lambda>v s. v = None \<longrightarrow> s = []) (elbow_values vis fit c X ls g) kss \<and>
   map skm_n_clusters skms = filter (\<lambda>v. v \<noteq> None) (elbow_values vis fit c X ls g) \<and>
   (\<forall>s \<in> set skms. fit_X s = Some X \<and> skm_max_iter s = 10000)"
proof (induction ls arbitrary: skms kv kss g)
  case Nil
  then show ?case by simp
next
  case (Cons l rest)
  from try_fit_loop_Cons[OF Cons.prems]
  obtain ks v sc g1 where
    rg: "py_range (k_min c) (k_max c) (k_step c) = Inr ks" and
    vz: "vis (estimator_skm (skm_config c)) ks X g = (Inr (v, sc), g1)" and
    rest: "(case v of
              None \<Rightarrow> \<exists>s' k' ks'.
                try_fit_loop vis fit c X rest ([], [], []) g1 = (Inr (s', k', ks'), g') \<and>
                skms = s' \<and> kv = - 1 # k' \<and> kss = [] # ks'
            | Some k \<Rightarrow> \<exists>cc g2 s' k' ks'.
                fit (cluster_skm k (skm_config c)) X g1 = (Inr cc, g2) \<and>
                try_fit_loop vis fit c X rest ([], [], []) g2 = (Inr (s', k', ks'), g') \<and>
                skms = after_fit (cluster_skm k (skm_config c)) X cc # s' \<and>
                kv = k # k' \<and> kss = sc # ks')"
    by blast
  show ?case
  proof (cases v)
    case None
    with rest obtain s' k' ks' where
      run: "try_fit_loop vis fit c X rest ([], [], []) g1 = (Inr (s', k', ks'), g')" and
      eqs: "skms = s'" "kv = - 1 # k'" "kss = [] # ks'"
      by auto
    have ev: "elbow_values vis fit c X (l # rest) g = None # elbow_values vis fit c X rest g1"
      using rg vz None by (simp only: elbow_values_Cons_None)
    from Cons.IH[OF run] show ?thesis
      unfolding ev eqs by simp
  next
    case (Some k)
    with rest obtain cc g2 s' k' ks' where
      ft: "fit (cluster_skm k (skm_config c)) X g1 = (Inr cc, g2)" and
      run: "try_fit_loop vis fit c X rest ([], [], []) g2 = (Inr (s', k', ks'), g')" and
      eqs: "skms = after_fit (cluster_skm k (skm_config c)) X cc # s'" "kv = k # k'"
           "kss = sc # ks'"
      by auto
    have ev: "elbow_values vis fit c X (l # rest) g = Some k # elbow_values vis fit c X rest g2"
      using rg vz ft Some by (simp only: elbow_values_Cons_Some)
    from Cons.IH[OF run] show ?thesis
      unfolding ev eqs by (simp add: after_fit_def cluster_skm_def)
  qed
qed

lemma fit_loop_acc:
  "fit_loop fit c X zs s0 g =
     (case fit_loop fit c X zs [] g of
        (Inl e, g') \<Rightarrow> (Inl e, g')
      | (Inr s, g') \<Rightarrow> (Inr (s0 @ s), g'))"
proof (induction zs arbitrary: s0 g)
  case Nil
  show ?case by simp
next
  case (Cons z rest)
  obtain l k where z: "z = (l, k)" by (cases z)
  obtain r g1 where f: "fit (cluster_skm k (skm_config c)) X g = (r, g1)"
    by (cases "fit (cluster_skm k (skm_config c)) X g")
  show ?case
  proof (cases r)
    case (Inl e)
    then show ?thesis by (simp add: z f)
  next
    case (Inr cc)
    show ?thesis
      using Cons.IH[of "s0 @ [after_fit (cluster_skm k (skm_config c)) X cc]" g1]
            Cons.IH[of "[after_fit (cluster_skm k (skm_config c)) X cc]" g1]
      by (simp add: z f Inr split: prod.splits sum.splits)
  qed
qed

lemma fit_loop_result:
  "fit_loop fit c X zs [] g = (Inr skms, g') \<Longrightarrow>
   map skm_n_clusters skms = map (\<lambda>z. Some (snd z)) zs \<and>
   (\<forall>s \<in> set skms. fit_X s = Some X \<and> skm_max_iter s = 10000)"
proof (induction zs arbitrary: skms g)
  case Nil
  then show ?case by simp
next
  case (Cons z rest)
  obtain l k where z: "z = (l, k)" by (cases z)
  obtain r g1 where f: "fit (cluster_skm k (skm_config c)) X g = (r, g1)"
    by (cases "fit (cluster_skm k (skm_config c)) X g")
  show ?case
  proof (cases r)
    case (Inl e)
    with Cons.prems show ?thesis by (simp add: z f)
  next
    case (Inr cc)
    from Cons.prems have
      "fit_loop fit c X rest [after_fit (cluster_skm k (skm_config c)) X cc] g1 = (Inr skms, g')"
      by (simp add: z f Inr)
    then obtain s' where
      run: "fit_loop fit c X rest [] g1 = (Inr s', g')" and
      eq: "skms = after_fit (cluster_skm k (skm_config c)) X cc # s'"
      using fit_loop_acc[of fit c X rest "[after_fit (cluster_skm k (skm_config c)) X cc]" g1]
      by (auto split: prod.splits sum.splits)
    from Cons.IH[OF run] show ?thesis
      unfolding eq z by (simp add: after_fit_def cluster_skm_def)
  qed
qed

lemma fit_loop_returns:
  "\<forall>skm X g. \<exists>cc g'. fit skm X g = (Inr cc, g') \<Longrightarrow>
   \<exists>skms g'. fit_loop fit c X zs s0 g = (Inr skms, g')"
proof (induction zs arbitrary: s0 g)
  case Nil
  show ?case by simp
next
  case (Cons z rest)
  obtain l k where z: "z = (l, k)" by (cases z)
  from Cons.prems obtain cc g1 where f: "fit (cluster_skm k (skm_config c)) X g = (Inr cc, g1)"
    by blast
  from Cons.IH[OF Cons.prems, of "s0 @ [after_fit (cluster_skm k (skm_config c)) X cc]" g1]
  show ?case by (simp add: z f)
qed

lemma try_fit_loop_returns:
  assumes "k_step c \<noteq> 0"
    and "\<forall>est ks X g. \<exists>r g'. vis est ks X g = (Inr r, g')"
    and "\<forall>skm X g. \<exists>cc g'. fit skm X g = (Inr cc, g')"
  shows "\<exists>r g'. try_fit_loop vis fit c X ls acc g = (Inr r, g')"
proof (induction ls arbitrary: acc g)
  case Nil
  show ?case by (metis try_fit_loop.simps(1))
next
  case (Cons l rest)
  obtain s0 k0 ks0 where acc: "acc = (s0, k0, ks0)" by (metis surj_pair)
  from assms(1) obtain ks where rg: "py_range (k_min c) (k_max c) (k_step c) = Inr ks"
    by (simp add: py_range_def)
  from assms(2) obtain v sc g1 where
    vz: "vis (estimator_skm (skm_config c)) ks X g = (Inr (v, sc), g1)"
    by (metis surj_pair)
  show ?case
  proof (cases v)
    case None
    from Cons.IH[of "(s0, k0 @ [- 1], ks0 @ [[]])" g1]
    show ?thesis by (simp add: acc rg vz None)
  next
    case (Some k)
    from assms(3) obtain cc g2 where f: "fit (cluster_skm k (skm_config c)) X g1 = (Inr cc, g2)"
      by blast
    from Cons.IH[of "(s0 @ [after_fit (cluster_skm k (skm_config c)) X cc], k0 @ [k], ks0 @ [sc])" g2]
    show ?thesis by (simp add: acc rg vz Some f)
  qed
qed

lemma np_unique_props:
  "set (np_unique y) = set y" "distinct (np_unique y)" "sorted (np_unique y)"
  "length (np_unique y) = card (set y)"
proof -
  show "set (np_unique y) = set y" by (simp add: np_unique_def)
  show "distinct (np_unique y)" by (simp add: np_unique_def)
  show "sorted (np_unique y)" by (simp add: np_unique_def)
  show "length (np_unique y) = card (set y)"
    by (simp add: np_unique_def length_remdups_card_conv)
qed

lemma try_fit_skms_run:
  assumes "comb bs = Inr raw"
    "convert_to_ndarray (mk_slice_dataset raw) = Inr (X, y)"
  shows "try_fit_skms vis fit (Inr bs) comb c st g =
     (case try_fit_loop vis fit c X (np_unique y) ([], [], []) g of
        (r, g') \<Rightarrow> (np_seterr_divide Ignore st, g', r))"
  using assms by (simp add: try_fit_skms_def materialize_batches_def np_seterr_divide_def)

lemma fit_skms_run:
  assumes "comb bs = Inr raw"
    "convert_to_ndarray (mk_slice_dataset raw) = Inr (X, y)"
  shows "fit_skms fit (Inr bs) comb c st g =
     (case fit_loop fit c X (zip (np_unique y) (k_vals c)) [] g of
        (r, g') \<Rightarrow> (np_seterr_divide Ignore st, g', r))"
  using assms by (simp add: fit_skms_def materialize_batches_def np_seterr_divide_def)

lemma detected_values:
  "map ((!) ev) (detected ev) = filter (\<lambda>v. v \<noteq> None) ev"
proof -
  have "filter (\<lambda>v. v \<noteq> None) (map ((!) ev) [0..<length ev]) =
        map ((!) ev) (filter ((\<lambda>v. v \<noteq> None) \<circ> (!) ev) [0..<length ev])"
    by (rule filter_map)
  then show ?thesis by (simp add: detected_def map_nth comp_def)
qed

lemma detected_sorted: "sorted_wrt (<) (detected ev)"
  unfolding detected_def by (rule sorted_wrt_filter) simp

lemma detected_set: "set (detected ev) = {i. i < length ev \<and> ev ! i \<noteq> None}"
  by (auto simp: detected_def)

lemma increasing_gap:
  fixes d :: "nat list"
  assumes "sorted_wrt (<) d" "k \<le> i" "i < length d"
  shows "d ! k + (i - k) \<le> d ! i"
  using assms(2,3)
proof (induction i)
  case 0
  then show ?case by simp
next
  case (Suc i)
  show ?case
  proof (cases "k = Suc i")
    case True
    then show ?thesis by simp
  next
    case False
    with Suc.prems have ki: "k \<le> i" and il: "i < length d" by simp_all
    have "d ! i < d ! Suc i"
      using assms(1) Suc.prems(2) by (simp add: sorted_wrt_nth_less)
    with Suc.IH[OF ki il] ki show ?thesis by simp
  qed
qed

lemma detected_shift:
  assumes "j \<le> i" "j < length ev" "ev ! j = None" "i < length (detected ev)"
  shows "i < detected ev ! i"
proof (rule ccontr)
  assume "\<not> i < detected ev ! i"
  moreover have "detected ev ! 0 + (i - 0) \<le> detected ev ! i"
    using detected_sorted assms(4) by (intro increasing_gap) simp_all
  ultimately have di: "detected ev ! i = i" by simp
  have jl: "j < length (detected ev)" using assms(1,4) by simp
  have "detected ev ! j + (i - j) \<le> detected ev ! i"
    using detected_sorted assms(1,4) by (intro increasing_gap) simp_all
  moreover have "detected ev ! 0 + (j - 0) \<le> detected ev ! j"
    using detected_sorted jl by (intro increasing_gap) simp_all
  ultimately have "detected ev ! j = j" using di assms(1) by simp
  then have "j \<in> set (detected ev)" using jl by (metis nth_mem)
  then show False using assms(3) by (simp add: detected_set)
qed

lemma detected_length: "length (detected ev) = length (filter (\<lambda>v. v \<noteq> None) ev)"
  using detected_values[of ev] by (metis length_map)

lemma detected_short:
  assumes "None \<in> set ev"
  shows "length (detected ev) < length ev"
  using assms unfolding detected_length by (intro length_filter_less[of None]) simp_all

text \<open>
  C10. When \<open>try_fit_skms\<close> returns, \<open>k_vals\<close> and \<open>k_scores\<close> have one entry for
  each distinct label of the training slices, in the ascending order of \<open>np.unique\<close>:
  entry \<open>i\<close> of \<open>k_vals\<close> is the elbow value read in the iteration for the \<open>i\<close>-th label, or
  \<open>-1\<close>. The list \<open>skms\<close> has one entry for each iteration in which an elbow was detected,
  in the same order: its \<open>j\<close>-th codebook was built with the elbow value of the \<open>j\<close>-th
  detected position. So when some label has no elbow, \<open>skms\<close> is shorter than \<open>k_vals\<close>, and
  from the first such position on the codebook at index \<open>i\<close> belongs to a later label than
  the one of \<open>k_vals[i]\<close>.
\<close>

theorem try_fit_skms_alignment:
  assumes "loader = Inr bs" and "comb bs = Inr raw"
    and "convert_to_ndarray (mk_slice_dataset raw) = Inr (X, y)"
    and "try_fit_skms vis fit loader comb c st g = (st', g', Inr (skms, kv, kss))"
  shows "length kv = card (set y) \<and> length kss = card (set y) \<and>
    sorted (np_unique y) \<and> distinct (np_unique y) \<and> set (np_unique y) = set y \<and>
    length (elbow_values vis fit c X (np_unique y) g) = length (np_unique y) \<and>
    kv = map (case_option (- 1) id) (elbow_values vis fit c X (np_unique y) g) \<and>
    length skms = length (detected (elbow_values vis fit c X (np_unique y) g)) \<and>
    sorted_wrt (<) (detected (elbow_values vis fit c X (np_unique y) g)) \<and>
    (\<forall>j < length skms. skm_n_clusters (skms ! j) =
        elbow_values vis fit c X (np_unique y) g !
          (detected (elbow_values vis fit c X (np_unique y) g) ! j)) \<and>
    (None \<in> set (elbow_values vis fit c X (np_unique y) g) \<longrightarrow> length skms < length kv) \<and>
    (\<forall>i j. j \<le> i \<and> j < length kv \<and>
        elbow_values vis fit c X (np_unique y) g ! j = None \<and> i < length skms \<longrightarrow>
        i < detected (elbow_values vis fit c X (np_unique y) g) ! i)"
proof -
  define ev where "ev = elbow_values vis fit c X (np_unique y) g"
  from assms(4) have run:
    "try_fit_loop vis fit c X (np_unique y) ([], [], []) g = (Inr (skms, kv, kss), g')"
    unfolding assms(1) try_fit_skms_run[where comb = comb, OF assms(2,3)]
    by (simp split: prod.splits)
  from try_fit_loop_trace[OF run] have
    len: "length ev = length (np_unique y)" and
    kv: "kv = map (case_option (- 1) id) ev" and
    kss: "list_all2 (\<lambda>v s. v = None \<longrightarrow> s = []) ev kss" and
    ncl: "map skm_n_clusters skms = filter (\<lambda>v. v \<noteq> None) ev"
    unfolding ev_def by simp_all
  have lkv: "length kv = card (set y)" using kv len by (simp add: np_unique_props)
  have lkss: "length kss = card (set y)"
    using kss len by (simp add: list_all2_lengthD[symmetric] np_unique_props)
  have ncl': "map skm_n_clusters skms = map ((!) ev) (detected ev)"
    using ncl by (simp add: detected_values)
  then have lsk: "length skms = length (detected ev)" by (metis length_map)
  have nth: "skm_n_clusters (skms ! j) = ev ! (detected ev ! j)" if "j < length skms" for j
    using ncl' that lsk by (metis nth_map)
  have short: "length skms < length kv" if "None \<in> set ev"
    using detected_short[OF that] lsk kv by simp
  have shift: "i < detected ev ! i"
    if "j \<le> i" "j < length kv" "ev ! j = None" "i < length skms" for i j
    using that kv lsk by (intro detected_shift[of j]) simp_all
  show ?thesis
    unfolding ev_def[symmetric]
    using lkv lkss len kv lsk nth short shift detected_sorted[of ev]
    by (auto simp add: np_unique_props)
qed

lemma ex_combine_raw: "ex_combine [ex_raw] = Inr ex_raw"
  by (simp add: ex_combine_def)

lemma ex_convert:
  "convert_to_ndarray (mk_slice_dataset ex_raw) = Inr (ex_slices, [2, 0, 1])"
  by (simp add: convert_to_ndarray_def mk_slice_dataset_def ex_raw_def ex_slices_def)

lemma ex_unique: "np_unique [2, 0, 1] = [0, 1, 2]"
  by (simp add: np_unique_def)

lemma ex_range:
  "py_range (k_min ex_sweep_config) (k_max ex_sweep_config) (k_step ex_sweep_config) =
     Inr [2, 3, 4, 5]"
  by (simp add: py_range_def range_len_def ex_sweep_config_def upt_rec)

lemma ex_sweep_skm_config: "skm_config ex_sweep_config = ex_skm_config"
  by (simp add: ex_sweep_config_def)

lemma ex_fix_skm_config: "skm_config (ex_fix_k_config ks) = ex_skm_config"
  by (simp add: ex_fix_k_config_def)

lemma ex_fix_k_vals: "k_vals (ex_fix_k_config ks) = ks"
  by (simp add: ex_fix_k_config_def)

lemma ex_sweep_loop:
  "try_fit_loop ex_visualizer ex_skm_fit ex_sweep_config ex_slices [0, 1, 2] ([], [], []) 0 =
     (Inr ([ex_fitted 2 2, ex_fitted 4 4], [- 1, 2, 4], [[], ex_scores, ex_scores]), 5)"
  by (simp add: ex_range ex_visualizer_def ex_skm_fit_def ex_sweep_skm_config ex_fitted_def
        ex_scores_def)

lemma ex_elbow_values:
  "elbow_values ex_visualizer ex_skm_fit ex_sweep_config ex_slices [0, 1, 2] 0 =
     [None, Some 2, Some 4]"
  by (simp add: ex_range ex_visualizer_def ex_skm_fit_def ex_sweep_skm_config)

lemma ex_sweep_run:
  "try_fit_skms ex_visualizer ex_skm_fit ex_loader ex_combine ex_sweep_config st 0 =
     (np_seterr_divide Ignore st, 5,
      Inr ([ex_fitted 2 2, ex_fitted 4 4], [- 1, 2, 4], [[], ex_scores, ex_scores]))"
  unfolding ex_loader_def
    try_fit_skms_run[where comb = ex_combine, OF ex_combine_raw ex_convert]
  by (simp only: ex_unique ex_sweep_loop prod.case)

lemma ex_fix_run_1:
  "fit_skms ex_skm_fit ex_loader ex_combine (ex_fix_k_config [2]) st g =
     (np_seterr_divide Ignore st, g + 1, Inr [ex_fitted 2 g])"
  unfolding ex_loader_def
    fit_skms_run[where comb = ex_combine, OF ex_combine_raw ex_convert]
  by (simp add: ex_unique ex_skm_fit_def ex_fix_skm_config ex_fix_k_vals ex_fitted_def)

lemma ex_fix_run_3:
  "fit_skms ex_skm_fit ex_loader ex_combine (ex_fix_k_config [a, b, c]) st g =
     (np_seterr_divide Ignore st, g + 3,
      Inr [ex_fitted a g, ex_fitted b (g + 1), ex_fitted c (g + 2)])"
  unfolding ex_loader_def
    fit_skms_run[where comb = ex_combine, OF ex_combine_raw ex_convert]
  by (simp add: ex_unique ex_skm_fit_def ex_fix_skm_config ex_fix_k_vals ex_fitted_def
        add.commute)

lemma ex_detected: "detected [None, Some 2, Some 4] = [1, 2]"
  by (simp add: detected_def upt_rec)

lemma filter_full:
  "length (filter P xs) = length xs \<longleftrightarrow> (\<forall>x \<in> set xs. P x)"
proof
  assume eq: "length (filter P xs) = length xs"
  show "\<forall>x \<in> set xs. P x"
  proof
    fix x assume "x \<in> set xs"
    then show "P x" using eq length_filter_less[of x xs P] by auto
  qed
next
  assume "\<forall>x \<in> set xs. P x"
  then show "length (filter P xs) = length xs" by (simp add: filter_id_conv[THEN iffD2])
qed

lemma detected_None: "ev ! i = None \<Longrightarrow> i \<notin> set (detected ev)"
  by (simp add: detected_set)

lemma try_fit_loop_all_None:
  assumes "k_step c \<noteq> 0"
    and "\<forall>est ks X g. \<exists>sc g'. vis est ks X g = (Inr (None, sc), g')"
  shows "\<exists>g'. try_fit_loop vis fit c X ls (s0, k0, ks0) g =
           (Inr (s0, k0 @ replicate (length ls) (- 1), ks0 @ replicate (length ls) []), g')"
proof (induction ls arbitrary: k0 ks0 g)
  case Nil
  show ?case by simp
next
  case (Cons l rest)
  from assms(1) obtain ks where rg: "py_range (k_min c) (k_max c) (k_step c) = Inr ks"
    by (simp add: py_range_def)
  from assms(2) obtain sc g1 where
    vz: "vis (estimator_skm (skm_config c)) ks X g = (Inr (None, sc), g1)"
    by blast
  from Cons.IH[of "k0 @ [- 1]" "ks0 @ [[]]" g1] obtain g' where
    "try_fit_loop vis fit c X rest (s0, k0 @ [- 1], ks0 @ [[]]) g1 =
       (Inr (s0, (k0 @ [- 1]) @ replicate (length rest) (- 1),
             (ks0 @ [[]]) @ replicate (length rest) []), g')"
    by blast
  then show ?case by (simp add: rg vz)
qed

text \<open>
  C5. In sweep mode, when \<open>try_fit_skms\<close> returns, \<open>k_vals\<close> and \<open>k_scores\<close> have one
  entry for each distinct label, and at the position of every label whose elbow value is
  \<open>None\<close> they hold \<open>-1\<close> and the empty list; no codebook is returned for such a label:
  the codebooks are, in order, those of the positions with an elbow. Nothing is raised for
  a missing elbow: the function returns whenever the step is not zero and the library
  calls return, and when the elbow search finds no elbow for any label it returns no
  codebook, \<open>-1\<close> for every label and an empty score list for every label.
\<close>

theorem try_fit_skms_no_elbow:
  assumes "loader = Inr bs" and "comb bs = Inr raw"
    and "convert_to_ndarray (mk_slice_dataset raw) = Inr (X, y)"
  shows
   "(try_fit_skms vis fit loader comb c st g = (st', g', Inr (skms, kv, kss)) \<longrightarrow>
       length (elbow_values vis fit c X (np_unique y) g) = card (set y) \<and>
       length kv = card (set y) \<and> length kss = card (set y) \<and>
       (\<forall>i < card (set y). elbow_values vis fit c X (np_unique y) g ! i = None \<longrightarrow>
            kv ! i = - 1 \<and> kss ! i = [] \<and>
            i \<notin> set (detected (elbow_values vis fit c X (np_unique y) g))) \<and>
       length skms = length (detected (elbow_values vis fit c X (np_unique y) g)) \<and>
       map skm_n_clusters skms =
         map ((!) (elbow_values vis fit c X (np_unique y) g))
           (detected (elbow_values vis fit c X (np_unique y) g))) \<and>
    (k_step c \<noteq> 0 \<and> (\<forall>est ks X g. \<exists>r g'. vis est ks X g = (Inr r, g')) \<and>
       (\<forall>skm X g. \<exists>cc g'. fit skm X g = (Inr cc, g')) \<longrightarrow>
       (\<exists>st' g' skms kv kss.
          try_fit_skms vis fit loader comb c st g = (st', g', Inr (skms, kv, kss)) \<and>
          length kv = card (set y) \<and> length kss = card (set y))) \<and>
    (k_step c \<noteq> 0 \<and> (\<forall>est ks X g. \<exists>sc g'. vis est ks X g = (Inr (None, sc), g')) \<longrightarrow>
       (\<exists>g'. try_fit_skms vis fit loader comb c st g =
          (np_seterr_divide Ignore st, g',
           Inr ([], replicate (card (set y)) (- 1), replicate (card (set y)) []))))"
proof -
  define ev where "ev = elbow_values vis fit c X (np_unique y) g"
  have a: "length ev = card (set y) \<and> length kv = card (set y) \<and> length kss = card (set y) \<and>
           (\<forall>i < card (set y). ev ! i = None \<longrightarrow>
              kv ! i = - 1 \<and> kss ! i = [] \<and> i \<notin> set (detected ev)) \<and>
           length skms = length (detected ev) \<and>
           map skm_n_clusters skms = map ((!) ev) (detected ev)"
    if r: "try_fit_skms vis fit loader comb c st g = (st', g', Inr (skms, kv, kss))"
    for st' g' skms kv kss
  proof -
    from r have run:
      "try_fit_loop vis fit c X (np_unique y) ([], [], []) g = (Inr (skms, kv, kss), g')"
      unfolding assms(1) try_fit_skms_run[where comb = comb, OF assms(2,3)]
      by (simp split: prod.splits)
    from try_fit_loop_trace[OF run] have
      len: "length ev = card (set y)" and
      kv: "kv = map (case_option (- 1) id) ev" and
      kss: "list_all2 (\<lambda>v s. v = None \<longrightarrow> s = []) ev kss" and
      ncl: "map skm_n_clusters skms = filter (\<lambda>v. v \<noteq> None) ev"
      unfolding ev_def by (simp_all add: np_unique_props)
    have lkv: "length kv = card (set y)" using kv len by simp
    have lkss: "length kss = card (set y)" using list_all2_lengthD[OF kss] len by simp
    have ncl': "map skm_n_clusters skms = map ((!) ev) (detected ev)"
      using ncl by (simp add: detected_values)
    then have lsk: "length skms = length (detected ev)" by (metis length_map)
    have "kv ! i = - 1 \<and> kss ! i = [] \<and> i \<notin> set (detected ev)"
      if "i < card (set y)" "ev ! i = None" for i
    proof -
      from that len have i: "i < length ev" by simp
      then have "kv ! i = - 1" using kv that(2) by simp
      moreover have "kss ! i = []" using list_all2_nthD[OF kss i] that(2) by simp
      ultimately show ?thesis using detected_None[OF that(2)] by simp
    qed
    with len lkv lkss lsk ncl' show ?thesis by blast
  qed
  have b: "\<exists>st' g' skms kv kss.
          try_fit_skms vis fit loader comb c st g = (st', g', Inr (skms, kv, kss)) \<and>
          length kv = card (set y) \<and> length kss = card (set y)"
    if "k_step c \<noteq> 0" "\<forall>est ks X g. \<exists>r g'. vis est ks X g = (Inr r, g')"
       "\<forall>skm X g. \<exists>cc g'. fit skm X g = (Inr cc, g')"
  proof -
    from try_fit_loop_returns[OF that, of X "np_unique y" "([], [], [])" g]
    obtain r g' where "try_fit_loop vis fit c X (np_unique y) ([], [], []) g = (Inr r, g')"
      by blast
    moreover obtain skms kv kss where "r = (skms, kv, kss)" by (metis surj_pair)
    ultimately have
      "try_fit_skms vis fit loader comb c st g =
         (np_seterr_divide Ignore st, g', Inr (skms, kv, kss))"
      unfolding assms(1) try_fit_skms_run[where comb = comb, OF assms(2,3)] by simp
    with a[OF this] show ?thesis by blast
  qed
  have d: "\<exists>g'. try_fit_skms vis fit loader comb c st g =
          (np_seterr_divide Ignore st, g',
           Inr ([], replicate (card (set y)) (- 1), replicate (card (set y)) []))"
    if "k_step c \<noteq> 0" "\<forall>est ks X g. \<exists>sc g'. vis est ks X g = (Inr (None, sc), g')"
  proof -
    from try_fit_loop_all_None[OF that, of fit X "np_unique y" "[]" "[]" "[]" g]
    obtain g' where "try_fit_loop vis fit c X (np_unique y) ([], [], []) g =
        (Inr ([], replicate (card (set y)) (- 1), replicate (card (set y)) []), g')"
      by (auto simp: np_unique_props)
    then show ?thesis
      unfolding assms(1) try_fit_skms_run[where comb = comb, OF assms(2,3)] by simp
  qed
  from a[of st' g' skms kv kss] b d show ?thesis unfolding ev_def by blast
qed

lemma try_fit_skms_Inr:
  assumes "try_fit_skms vis fit loader comb c st g = (st', g', Inr res)"
  shows "\<exists>bs raw X y. loader = Inr bs \<and> comb bs = Inr raw \<and>
           convert_to_ndarray (mk_slice_dataset raw) = Inr (X, y) \<and>
           try_fit_loop vis fit c X (np_unique y) ([], [], []) g = (Inr res, g')"
  using assms unfolding try_fit_skms_def materialize_batches_def
  by (auto simp: Let_def split: sum.splits prod.splits)

lemma fit_skms_Inr:
  assumes "fit_skms fit loader comb c st g = (st', g', Inr skms)"
  shows "\<exists>bs raw X y. loader = Inr bs \<and> comb bs = Inr raw \<and>
           convert_to_ndarray (mk_slice_dataset raw) = Inr (X, y) \<and>
           fit_loop fit c X (zip (np_unique y) (k_vals c)) [] g = (Inr skms, g')"
  using assms unfolding fit_skms_def materialize_batches_def
  by (auto simp: Let_def split: sum.splits prod.splits)


text \<open>
  C4, as amended. In fixed-k mode the number of codebooks returned is the smaller of the
  number of distinct labels of the training slices and the length of the supplied list
  of cluster counts. In sweep mode it is the number of labels for which an elbow was
  detected: at most the number of distinct labels, and equal to it exactly when an elbow
  was detected for every label.
\<close>

theorem codebook_count:
  assumes "loader = Inr bs" and "comb bs = Inr raw"
    and "convert_to_ndarray (mk_slice_dataset raw) = Inr (X, y)"
  shows
   "(fit_skms fit loader comb cf st g = (st', g', Inr skms) \<longrightarrow>
       length skms = min (card (set y)) (length (k_vals cf))) \<and>
    (try_fit_skms vis fit loader comb c st g = (st'', g'', Inr (skms2, kv, kss)) \<longrightarrow>
       length skms2 =
         length (filter (\<lambda>v. v \<noteq> None) (elbow_values vis fit c X (np_unique y) g)) \<and>
       length skms2 \<le> card (set y) \<and>
       (length skms2 = card (set y) \<longleftrightarrow>
          None \<notin> set (elbow_values vis fit c X (np_unique y) g)))"
proof -
  define ev where "ev = elbow_values vis fit c X (np_unique y) g"
  have a: "length skms = min (card (set y)) (length (k_vals cf))"
    if r: "fit_skms fit loader comb cf st g = (st', g', Inr skms)"
  proof -
    from r have run:
      "fit_loop fit cf X (zip (np_unique y) (k_vals cf)) [] g = (Inr skms, g')"
      unfolding assms(1) fit_skms_run[where comb = comb, OF assms(2,3)]
      by (simp split: prod.splits)
    from fit_loop_result[OF run] have
      "map skm_n_clusters skms = map (\<lambda>z. Some (snd z)) (zip (np_unique y) (k_vals cf))"
      by simp
    then have "length skms = length (zip (np_unique y) (k_vals cf))" by (metis length_map)
    then show ?thesis by (simp add: np_unique_props)
  qed
  have b: "length skms2 = length (filter (\<lambda>v. v \<noteq> None) ev) \<and>
       length skms2 \<le> card (set y) \<and> (length skms2 = card (set y) \<longleftrightarrow> None \<notin> set ev)"
    if r: "try_fit_skms vis fit loader comb c st g = (st'', g'', Inr (skms2, kv, kss))"
  proof -
    from r have run:
      "try_fit_loop vis fit c X (np_unique y) ([], [], []) g = (Inr (skms2, kv, kss), g'')"
      unfolding assms(1) try_fit_skms_run[where comb = comb, OF assms(2,3)]
      by (simp split: prod.splits)
    from try_fit_loop_trace[OF run] have
      len: "length ev = card (set y)" and
      ncl: "map skm_n_clusters skms2 = filter (\<lambda>v. v \<noteq> None) ev"
      unfolding ev_def by (simp_all add: np_unique_props)
    from ncl have l: "length skms2 = length (filter (\<lambda>v. v \<noteq> None) ev)"
      by (metis length_map)
    moreover have "length (filter (\<lambda>v. v \<noteq> None) ev) \<le> length ev" by simp
    moreover have "length (filter (\<lambda>v. v \<noteq> None) ev) = length ev \<longleftrightarrow> None \<notin> set ev"
      unfolding filter_full by metis
    ultimately show ?thesis using len by simp
  qed
  from a b show ?thesis unfolding ev_def by blast
qed








lemma ex_vis_total: "\<forall>est ks X g. \<exists>r g'. ex_visualizer est ks X g = (Inr r, g')"
  by (simp add: ex_visualizer_def)

lemma ex_fit_total: "\<forall>skm X g. \<exists>cc g'. ex_skm_fit skm X g = (Inr cc, g')"
  by (simp add: ex_skm_fit_def)

lemma ex_vis_first:
  "ex_visualizer (estimator_skm (skm_config ex_sweep_config)) [2, 3, 4, 5] ex_slices 0 =
     (Inr (None, ex_scores), 1)"
  by (simp add: ex_visualizer_def ex_scores_def)

lemma ex_fitted_fields:
  "skm_n_clusters (ex_fitted k g) = Some k" "fit_X (ex_fitted k g) = Some ex_slices"
  "fitted (ex_fitted k g) = Some g" "skm_max_iter (ex_fitted k g) = 10000"
  by (simp_all add: ex_fitted_def after_fit_def cluster_skm_def)

lemma ex_ev:
  "elbow_values ex_visualizer ex_skm_fit ex_sweep_config ex_slices (np_unique [2, 0, 1]) 0 =
     [None, Some 2, Some 4]"
  by (simp only: ex_unique ex_elbow_values)

lemma ex_fix_run_1_0:
  "fit_skms ex_skm_fit ex_loader ex_combine (ex_fix_k_config [2]) np_default_errstate 0 =
     (np_seterr_divide Ignore np_default_errstate, 1, Inr [ex_fitted 2 0])"
  using ex_fix_run_1[of np_default_errstate 0] by simp


theorem try_fit_skms_alignment_witness:
  "try_fit_skms ex_visualizer ex_skm_fit ex_loader ex_combine ex_sweep_config
     np_default_errstate 0 =
     (np_seterr_divide Ignore np_default_errstate, 5,
      Inr ([ex_fitted 2 2, ex_fitted 4 4], [- 1, 2, 4], [[], ex_scores, ex_scores])) \<and>
   np_unique [2, 0, 1] = [0, 1, 2] \<and>
   elbow_values ex_visualizer ex_skm_fit ex_sweep_config ex_slices (np_unique [2, 0, 1]) 0 =
     [None, Some 2, Some 4] \<and>
   detected [None, Some 2, Some 4] = [1, 2] \<and>
   length [- 1, 2, 4 :: int] = card (set [2, 0, 1 :: int]) \<and>
   length [[], ex_scores, ex_scores] = card (set [2, 0, 1 :: int]) \<and>
   length [ex_fitted 2 2, ex_fitted 4 4] = length (detected [None, Some 2, Some 4]) \<and>
   length [ex_fitted 2 2, ex_fitted 4 4] < length [- 1, 2, 4 :: int] \<and>
   skm_n_clusters ([ex_fitted 2 2, ex_fitted 4 4] ! 0) = [None, Some 2, Some 4] ! 1 \<and>
   (0 :: nat) < detected [None, Some 2, Some 4] ! 0 \<and>
   (1 :: nat) < detected [None, Some 2, Some 4] ! 1"
proof -
  note inst = try_fit_skms_alignment[where loader = ex_loader and bs = "[ex_raw]"
      and comb = ex_combine and raw = ex_raw and X = ex_slices and y = "[2, 0, 1]"
      and vis = ex_visualizer and fit = ex_skm_fit and c = ex_sweep_config
      and st = np_default_errstate and g = 0,
      OF ex_loader_def ex_combine_raw ex_convert ex_sweep_run, unfolded ex_ev]
  from inst have
    f1: "length [- 1, 2, 4 :: int] = card (set [2, 0, 1 :: int])" and
    f2: "length [[], ex_scores, ex_scores] = card (set [2, 0, 1 :: int])" and
    f3: "length [ex_fitted 2 2, ex_fitted 4 4] = length (detected [None, Some 2, Some 4])" and
    f4: "None \<in> set [None, Some 2, Some (4 :: int)] \<longrightarrow>
           length [ex_fitted 2 2, ex_fitted 4 4] < length [- 1, 2, 4 :: int]" and
    f5: "\<forall>j < length [ex_fitted 2 2, ex_fitted 4 4].
           skm_n_clusters ([ex_fitted 2 2, ex_fitted 4 4] ! j) =
           [None, Some 2, Some 4] ! (detected [None, Some 2, Some 4] ! j)" and
    f6: "\<forall>i j. j \<le> i \<and> j < length [- 1, 2, 4 :: int] \<and>
           [None, Some 2, Some (4 :: int)] ! j = None \<and>
           i < length [ex_fitted 2 2, ex_fitted 4 4] \<longrightarrow>
           i < detected [None, Some 2, Some 4] ! i"
    by blast+
  from f4 have g4: "length [ex_fitted 2 2, ex_fitted 4 4] < length [- 1, 2, 4 :: int]"
    by simp
  from f5[rule_format, of 0] have g5:
    "skm_n_clusters ([ex_fitted 2 2, ex_fitted 4 4] ! 0) = [None, Some 2, Some 4] ! 1"
    by (simp add: ex_detected)
  from f6[rule_format, of 0 0] have g6: "(0 :: nat) < detected [None, Some 2, Some 4] ! 0"
    by simp
  from f6[rule_format, of 0 1] have g7: "(1 :: nat) < detected [None, Some 2, Some 4] ! 1"
    by simp
  from ex_sweep_run[of np_default_errstate] ex_unique ex_ev ex_detected f1 f2 f3 g4 g5 g6 g7
  show ?thesis by blast
qed

lemma ex_flat_total:
  "\<forall>est ks X g. \<exists>sc g'. ex_flat_visualizer est ks X g = (Inr (None, sc), g')"
  by (simp add: ex_flat_visualizer_def)

theorem try_fit_skms_no_elbow_witness:
  "try_fit_skms ex_visualizer ex_skm_fit ex_loader ex_combine ex_sweep_config
     np_default_errstate 0 =
     (np_seterr_divide Ignore np_default_errstate, 5,
      Inr ([ex_fitted 2 2, ex_fitted 4 4], [- 1, 2, 4], [[], ex_scores, ex_scores])) \<and>
   elbow_values ex_visualizer ex_skm_fit ex_sweep_config ex_slices (np_unique [2, 0, 1]) 0 =
     [None, Some 2, Some 4] \<and>
   length [None, Some 2, Some (4 :: int)] = card (set [2, 0, 1 :: int]) \<and>
   length [- 1, 2, 4 :: int] = card (set [2, 0, 1 :: int]) \<and>
   length [[], ex_scores, ex_scores] = card (set [2, 0, 1 :: int]) \<and>
   [- 1, 2, 4 :: int] ! 0 = - 1 \<and> [[], ex_scores, ex_scores] ! 0 = [] \<and>
   0 \<notin> set (detected [None, Some 2, Some 4]) \<and>
   length [ex_fitted 2 2, ex_fitted 4 4] = length (detected [None, Some 2, Some 4]) \<and>
   map skm_n_clusters [ex_fitted 2 2, ex_fitted 4 4] =
     map ((!) [None, Some 2, Some 4]) (detected [None, Some 2, Some 4]) \<and>
   k_step ex_sweep_config \<noteq> 0 \<and>
   (\<exists>st' g' skms kv kss.
      try_fit_skms ex_visualizer ex_skm_fit ex_loader ex_combine ex_sweep_config
        np_default_errstate 0 = (st', g', Inr (skms, kv, kss)) \<and>
      length kv = card (set [2, 0, 1 :: int]) \<and> length kss = card (set [2, 0, 1 :: int])) \<and>
   (\<exists>g'. try_fit_skms ex_flat_visualizer ex_skm_fit ex_loader ex_combine ex_sweep_config
      np_default_errstate 0 =
      (np_seterr_divide Ignore np_default_errstate, g',
       Inr ([], replicate (card (set [2, 0, 1 :: int])) (- 1),
            replicate (card (set [2, 0, 1 :: int])) [])))"
proof -
  note inst = try_fit_skms_no_elbow[where loader = ex_loader and bs = "[ex_raw]"
      and comb = ex_combine and raw = ex_raw and X = ex_slices and y = "[2, 0, 1]"
      and vis = ex_visualizer and fit = ex_skm_fit and c = ex_sweep_config
      and st = np_default_errstate and g = 0
      and st' = "np_seterr_divide Ignore np_default_errstate" and g' = 5
      and skms = "[ex_fitted 2 2, ex_fitted 4 4]" and kv = "[- 1, 2, 4]"
      and kss = "[[], ex_scores, ex_scores]",
      OF ex_loader_def ex_combine_raw ex_convert, unfolded ex_ev]
  note flat = try_fit_skms_no_elbow[where loader = ex_loader and bs = "[ex_raw]"
      and comb = ex_combine and raw = ex_raw and X = ex_slices and y = "[2, 0, 1]"
      and vis = ex_flat_visualizer and fit = ex_skm_fit and c = ex_sweep_config
      and st = np_default_errstate and g = 0,
      OF ex_loader_def ex_combine_raw ex_convert]
  have ks: "k_step ex_sweep_config \<noteq> 0" by (simp add: ex_sweep_config_def)
  from inst ks ex_vis_total ex_fit_total ex_sweep_run[of np_default_errstate]
  have
    f1: "\<exists>st' g' skms kv kss.
      try_fit_skms ex_visualizer ex_skm_fit ex_loader ex_combine ex_sweep_config
        np_default_errstate 0 = (st', g', Inr (skms, kv, kss)) \<and>
      length kv = card (set [2, 0, 1 :: int]) \<and> length kss = card (set [2, 0, 1 :: int])" and
    f2: "length [None, Some 2, Some (4 :: int)] = card (set [2, 0, 1 :: int])" and
    f3: "length [- 1, 2, 4 :: int] = card (set [2, 0, 1 :: int])" and
    f4: "length [[], ex_scores, ex_scores] = card (set [2, 0, 1 :: int])" and
    f5: "\<forall>i < card (set [2, 0, 1 :: int]). [None, Some 2, Some (4 :: int)] ! i = None \<longrightarrow>
            [- 1, 2, 4 :: int] ! i = - 1 \<and> [[], ex_scores, ex_scores] ! i = [] \<and>
            i \<notin> set (detected [None, Some 2, Some 4])" and
    f6: "length [ex_fitted 2 2, ex_fitted 4 4] = length (detected [None, Some 2, Some 4])" and
    f7: "map skm_n_clusters [ex_fitted 2 2, ex_fitted 4 4] =
     map ((!) [None, Some 2, Some 4]) (detected [None, Some 2, Some 4])"
    by blast+
  from f5[rule_format, of 0] have
    g5: "[- 1, 2, 4 :: int] ! 0 = - 1" "[[], ex_scores, ex_scores] ! 0 = []"
        "0 \<notin> set (detected [None, Some 2, Some 4])"
    by simp_all
  from flat ks ex_flat_total have
    f8: "\<exists>g'. try_fit_skms ex_flat_visualizer ex_skm_fit ex_loader ex_combine ex_sweep_config
      np_default_errstate 0 =
      (np_seterr_divide Ignore np_default_errstate, g',
       Inr ([], replicate (card (set [2, 0, 1 :: int])) (- 1),
            replicate (card (set [2, 0, 1 :: int])) []))"
    by blast
  from ex_sweep_run[of np_default_errstate] ex_ev f2 f3 f4 g5 f6 f7 ks f1 f8
  show ?thesis by blast
qed

theorem codebook_count_counterexample:
  "fit_skms ex_skm_fit ex_loader ex_combine (ex_fix_k_config [2]) np_default_errstate 0 =
     (np_seterr_divide Ignore np_default_errstate, 1, Inr [ex_fitted 2 0]) \<and>
   try_fit_skms ex_visualizer ex_skm_fit ex_loader ex_combine ex_sweep_config
     np_default_errstate 0 =
     (np_seterr_divide Ignore np_default_errstate, 5,
      Inr ([ex_fitted 2 2, ex_fitted 4 4], [- 1, 2, 4], [[], ex_scores, ex_scores])) \<and>
   length [ex_fitted 2 0] = 1 \<and> length [ex_fitted 2 2, ex_fitted 4 4] = 2 \<and>
   labels (mk_slice_dataset ex_raw) = [2, 0, 1] \<and>
   card (set (labels (mk_slice_dataset ex_raw))) = 3"
proof -
  have l: "labels (mk_slice_dataset ex_raw) = [2, 0, 1]"
    by (simp add: mk_slice_dataset_def ex_raw_def)
  have c: "card (set (labels (mk_slice_dataset ex_raw))) = 3"
    unfolding l by simp
  have n: "length [ex_fitted 2 0] = 1" "length [ex_fitted 2 2, ex_fitted 4 4] = 2"
    by simp_all
  from ex_fix_run_1_0 ex_sweep_run[of np_default_errstate] l c n show ?thesis by blast
qed

theorem codebook_count_witness:
  "fit_skms ex_skm_fit ex_loader ex_combine (ex_fix_k_config [2]) np_default_errstate 0 =
     (np_seterr_divide Ignore np_default_errstate, 1, Inr [ex_fitted 2 0]) \<and>
   length [ex_fitted 2 0] =
     min (card (set [2, 0, 1 :: int])) (length (k_vals (ex_fix_k_config [2]))) \<and>
   try_fit_skms ex_visualizer ex_skm_fit ex_loader ex_combine ex_sweep_config
     np_default_errstate 0 =
     (np_seterr_divide Ignore np_default_errstate, 5,
      Inr ([ex_fitted 2 2, ex_fitted 4 4], [- 1, 2, 4], [[], ex_scores, ex_scores])) \<and>
   length [ex_fitted 2 2, ex_fitted 4 4] =
     length (filter (\<lambda>v. v \<noteq> None) [None, Some 2, Some (4 :: int)]) \<and>
   length [ex_fitted 2 2, ex_fitted 4 4] \<le> card (set [2, 0, 1 :: int]) \<and>
   None \<in> set [None, Some 2, Some (4 :: int)] \<and>
   length [ex_fitted 2 2, ex_fitted 4 4] \<noteq> card (set [2, 0, 1 :: int])"
proof -
  note inst = codebook_count[where loader = ex_loader and bs = "[ex_raw]"
      and comb = ex_combine and raw = ex_raw and X = ex_slices and y = "[2, 0, 1]"
      and vis = ex_visualizer and fit = ex_skm_fit and c = ex_sweep_config
      and cf = "ex_fix_k_config [2]" and st = np_default_errstate and g = 0
      and st' = "np_seterr_divide Ignore np_default_errstate" and g' = 1
      and skms = "[ex_fitted 2 0]"
      and st'' = "np_seterr_divide Ignore np_default_errstate" and g'' = 5
      and ?skms2.0 = "[ex_fitted 2 2, ex_fitted 4 4]" and kv = "[- 1, 2, 4]"
      and kss = "[[], ex_scores, ex_scores]",
      OF ex_loader_def ex_combine_raw ex_convert, unfolded ex_ev]
  have m: "None \<in> set [None, Some 2, Some (4 :: int)]" by simp
  from inst ex_fix_run_1_0 ex_sweep_run[of np_default_errstate] m
  have
    f1: "length [ex_fitted 2 0] =
          min (card (set [2, 0, 1 :: int])) (length (k_vals (ex_fix_k_config [2])))" and
    f2: "length [ex_fitted 2 2, ex_fitted 4 4] =
          length (filter (\<lambda>v. v \<noteq> None) [None, Some 2, Some (4 :: int)])" and
    f3: "length [ex_fitted 2 2, ex_fitted 4 4] \<le> card (set [2, 0, 1 :: int])" and
    f4: "length [ex_fitted 2 2, ex_fitted 4 4] \<noteq> card (set [2, 0, 1 :: int])"
    by blast+
  from ex_fix_run_1_0 ex_sweep_run[of np_default_errstate] f1 f2 f3 m f4
  show ?thesis by blast
qed






text \<open>
  C1. On a training set of three files with the labels 2, 0 and 1 and one slice each,
  every codebook that \<open>fit_skms\<close> and \<open>try_fit_skms\<close> return was fitted on all three
  slices, while the slices of class 0 are the one slice of the second file and the slices
  of class 1 the one slice of the third.
\<close>

theorem fit_skms_trains_on_all_slices:
  "snd (snd (fit_skms ex_skm_fit ex_loader ex_combine (ex_fix_k_config [2, 3, 4])
      np_default_errstate 0)) = Inr [ex_fitted 2 0, ex_fitted 3 1, ex_fitted 4 2] \<and>
   snd (snd (try_fit_skms ex_visualizer ex_skm_fit ex_loader ex_combine ex_sweep_config
      np_default_errstate 0)) =
     Inr ([ex_fitted 2 2, ex_fitted 4 4], [- 1, 2, 4], [[], ex_scores, ex_scores]) \<and>
   np_unique (labels (mk_slice_dataset ex_raw)) = [0, 1, 2] \<and>
   fit_X (ex_fitted 2 0) = Some [[1, 0], [0, 1], [1, 1]] \<and>
   class_slices (mk_slice_dataset ex_raw) 0 = [[0, 1]] \<and>
   fit_X (ex_fitted 2 2) = Some [[1, 0], [0, 1], [1, 1]] \<and>
   class_slices (mk_slice_dataset ex_raw) 1 = [[1, 1]]"
proof -
  have a: "snd (snd (fit_skms ex_skm_fit ex_loader ex_combine (ex_fix_k_config [2, 3, 4])
      np_default_errstate 0)) = Inr [ex_fitted 2 0, ex_fitted 3 1, ex_fitted 4 2]"
    using ex_fix_run_3[of 2 3 4 np_default_errstate 0] by simp
  have b: "snd (snd (try_fit_skms ex_visualizer ex_skm_fit ex_loader ex_combine
      ex_sweep_config np_default_errstate 0)) =
     Inr ([ex_fitted 2 2, ex_fitted 4 4], [- 1, 2, 4], [[], ex_scores, ex_scores])"
    by (simp only: ex_sweep_run snd_conv)
  have c: "np_unique (labels (mk_slice_dataset ex_raw)) = [0, 1, 2]"
    by (simp add: mk_slice_dataset_def ex_raw_def np_unique_def)
  have d: "fit_X (ex_fitted 2 g) = Some [[1, 0], [0, 1], [1, 1]]" for g
    by (simp add: ex_fitted_fields ex_slices_def)
  have e: "class_slices (mk_slice_dataset ex_raw) 0 = [[0, 1]]"
          "class_slices (mk_slice_dataset ex_raw) 1 = [[1, 1]]"
    by (simp_all add: class_slices_def mk_slice_dataset_def ex_raw_def)
  from a b c d[of 0] d[of 2] e show ?thesis by blast
qed

section \<open>Properties of single-file inference and of the error state\<close>

lemma np_bincount_bins:
  assumes "\<forall>p \<in> set pred. 0 \<le> p"
  shows "\<exists>res. np_bincount pred 2 = Inr res \<and> res ! 0 = int (count_list pred 0) \<and>
           res ! 1 = int (count_list pred 1)"
proof -
  define m where "m = max 2 (nat (fold max pred (- 1) + 1))"
  have m: "0 < m" "1 < m" by (simp_all add: m_def)
  have "np_bincount pred 2 = Inr (map (\<lambda>i. int (count_list pred (int i))) [0..<m])"
    using assms by (auto simp: np_bincount_def m_def)
  moreover have "map (\<lambda>i. int (count_list pred (int i))) [0..<m] ! 0 = int (count_list pred 0)"
    using m by simp
  moreover have "map (\<lambda>i. int (count_list pred (int i))) [0..<m] ! 1 = int (count_list pred 1)"
    using m by simp
  ultimately show ?thesis by blast
qed

lemma np_bincount_negative:
  "\<exists>p \<in> set pred. p < 0 \<Longrightarrow> np_bincount pred m = Inl ValueError"
  by (simp add: np_bincount_def)

lemma count_binary:
  "\<forall>p \<in> set pred. p = 0 \<or> p = (1 :: int) \<Longrightarrow>
   count_list pred 0 + count_list pred 1 = length pred"
  by (induction pred) auto

text \<open>
  C2, as amended. On the predictions \<open>pred\<close> of the file, \<open>infer_single_audio\<close> returns
  the count of class 0 divided by the sum of the counts of class 0 and class 1. When
  every prediction is class 0 or class 1 and there is at least one, that is the fraction
  of the predictions assigned to class 0. A negative label raises \<open>ValueError\<close>.
\<close>

theorem infer_single_audio_ratio:
  assumes "infer_predictions lib skms classifier configs = Inr pred"
  shows
   "((\<forall>p \<in> set pred. 0 \<le> p) \<longrightarrow>
       infer_single_audio lib skms classifier configs =
         Inr (np_true_divide (int (count_list pred 0))
                (int (count_list pred 0) + int (count_list pred 1)))) \<and>
    (pred \<noteq> [] \<and> (\<forall>p \<in> set pred. p = 0 \<or> p = 1) \<longrightarrow>
       infer_single_audio lib skms classifier configs =
         Inr (Finite (of_nat (count_list pred 0) / of_nat (length pred)))) \<and>
    ((\<exists>p \<in> set pred. p < 0) \<longrightarrow>
       infer_single_audio lib skms classifier configs = Inl ValueError)"
proof -
  have run: "infer_single_audio lib skms classifier configs = bincount_ratio pred"
    using assms by (simp add: infer_single_audio_def on_ok_def)
  have a: "bincount_ratio pred =
         Inr (np_true_divide (int (count_list pred 0))
                (int (count_list pred 0) + int (count_list pred 1)))"
    if "\<forall>p \<in> set pred. 0 \<le> p"
    using np_bincount_bins[OF that] by (auto simp: bincount_ratio_def on_ok_def)
  have b: "bincount_ratio pred = Inr (Finite (of_nat (count_list pred 0) / of_nat (length pred)))"
    if ne: "pred \<noteq> []" and bin: "\<forall>p \<in> set pred. p = 0 \<or> p = 1"
  proof -
    from bin have nn: "\<forall>p \<in> set pred. 0 \<le> p" by auto
    have tot: "int (count_list pred 0) + int (count_list pred 1) = int (length pred)"
      using count_binary[OF bin] by linarith
    have pos: "int (length pred) \<noteq> 0" using ne by simp
    show ?thesis
      unfolding a[OF nn] tot using pos by (simp add: np_true_divide_def)
  qed
  have c: "bincount_ratio pred = Inl ValueError" if "\<exists>p \<in> set pred. p < 0"
    using np_bincount_negative[OF that] by (simp add: bincount_ratio_def on_ok_def)
  from a b c show ?thesis unfolding run by blast
qed

lemma ex_predictions:
  "infer_predictions (ex_lib pred) [] () ex_sweep_config = Inr pred"
  by (simp add: infer_predictions_def ex_lib_def on_ok_def ex_mel_def)

lemma ex_ratio_three: "bincount_ratio [0, 2, 2] = Inr (Finite 1)"
  by (simp add: bincount_ratio_def on_ok_def np_bincount_def np_true_divide_def upt_rec)

theorem infer_single_audio_counterexample:
  "infer_predictions (ex_lib [0, 2, 2]) [] () ex_sweep_config = Inr [0, 2, 2] \<and>
   infer_single_audio (ex_lib [0, 2, 2]) [] () ex_sweep_config = Inr (Finite 1) \<and>
   count_list [0, 2, 2 :: int] 0 = 1 \<and> length [0, 2, 2 :: int] = 3 \<and>
   Finite 1 \<noteq> Finite (1 / 3)"
proof -
  have a: "infer_single_audio (ex_lib [0, 2, 2]) [] () ex_sweep_config = Inr (Finite 1)"
    by (simp add: infer_single_audio_def ex_predictions on_ok_def ex_ratio_three)
  have b: "count_list [0, 2, 2 :: int] 0 = 1" "length [0, 2, 2 :: int] = 3"
    "Finite 1 \<noteq> Finite (1 / 3)"
    by simp_all
  from ex_predictions[of "[0, 2, 2]"] a b show ?thesis by blast
qed

theorem infer_single_audio_ratio_witness:
  "infer_predictions (ex_lib ex_pred_9_of_12) [] () ex_sweep_config = Inr ex_pred_9_of_12 \<and>
   ex_pred_9_of_12 \<noteq> [] \<and> list_all (\<lambda>p. p = 0 \<or> p = 1) ex_pred_9_of_12 \<and>
   count_list ex_pred_9_of_12 0 = 9 \<and> count_list ex_pred_9_of_12 1 = 3 \<and>
   length ex_pred_9_of_12 = 12 \<and>
   infer_single_audio (ex_lib ex_pred_9_of_12) [] () ex_sweep_config = Inr (Finite (3 / 4))"
proof -
  note inst = infer_single_audio_ratio[where lib = "ex_lib ex_pred_9_of_12" and skms = "[]"
      and classifier = "()" and configs = ex_sweep_config and pred = ex_pred_9_of_12,
      OF ex_predictions]
  have ne: "ex_pred_9_of_12 \<noteq> []" by (simp add: ex_pred_9_of_12_def)
  have bin: "\<forall>p \<in> set ex_pred_9_of_12. p = 0 \<or> p = 1" by (simp add: ex_pred_9_of_12_def)
  have cnt: "count_list ex_pred_9_of_12 0 = 9" "count_list ex_pred_9_of_12 1 = 3"
    "length ex_pred_9_of_12 = 12"
    by (simp_all add: ex_pred_9_of_12_def)
  from inst ne bin have
    "infer_single_audio (ex_lib ex_pred_9_of_12) [] () ex_sweep_config =
       Inr (Finite (of_nat (count_list ex_pred_9_of_12 0) / of_nat (length ex_pred_9_of_12)))"
    by blast
  then have r: "infer_single_audio (ex_lib ex_pred_9_of_12) [] () ex_sweep_config =
      Inr (Finite (3 / 4))"
    unfolding cnt by simp
  from bin have bin': "list_all (\<lambda>p. p = 0 \<or> p = 1) ex_pred_9_of_12"
    unfolding list_all_iff .
  from ex_predictions[of ex_pred_9_of_12] ne bin' cnt r show ?thesis by blast
qed

text \<open>
  C3, as amended. \<open>generate_slice_dataset\<close> leaves the handling of division at \<open>warn\<close>
  when loading returns, whatever it was on entry, and touches no other entry of the error
  state. When loading raises, nothing is restored: \<open>generate_slice_dataset\<close>, the block
  common to the four loops of bias\_variance.py, \<open>try_fit_skms\<close> and \<open>fit_skms\<close> leave
  the handling of division at \<open>ignore\<close>.
\<close>

theorem seterr_after_loading:
  "fst (generate_slice_dataset (Inr raws) st) = st\<lparr>err_divide := Warn\<rparr> \<and>
   fst (generate_slice_dataset (Inl e) st) = st\<lparr>err_divide := Ignore\<rparr> \<and>
   fst (materialize_batches (Inl e :: error + 'b list) st) = st\<lparr>err_divide := Ignore\<rparr> \<and>
   fst (try_fit_skms vis fit (Inl e) comb c st g) = st\<lparr>err_divide := Ignore\<rparr> \<and>
   fst (fit_skms fit (Inl e) comb' cf st g) = st\<lparr>err_divide := Ignore\<rparr>"
  by (simp add: generate_slice_dataset_def materialize_batches_def try_fit_skms_def
        fit_skms_def np_seterr_divide_def Let_def)

theorem seterr_counterexample:
  "err_divide np_default_errstate = Warn \<and>
   err_divide (fst (generate_slice_dataset (Inl (LibraryError ''load'')) np_default_errstate))
     = Ignore \<and>
   snd (generate_slice_dataset (Inl (LibraryError ''load'')) np_default_errstate)
     = Inl (LibraryError ''load'') \<and>
   err_divide (np_default_errstate\<lparr>err_divide := Raise\<rparr>) = Raise \<and>
   err_divide (fst (generate_slice_dataset (Inr [ex_raw, ex_raw])
       (np_default_errstate\<lparr>err_divide := Raise\<rparr>))) = Warn \<and>
   snd (generate_slice_dataset (Inr [ex_raw, ex_raw])
       (np_default_errstate\<lparr>err_divide := Raise\<rparr>))
     = Inr (mk_slice_dataset ex_raw, mk_slice_dataset ex_raw)"
  by (simp add: generate_slice_dataset_def np_seterr_divide_def np_default_errstate_def
        Let_def)

theorem seterr_after_loading_witness:
  "fst (generate_slice_dataset (Inr [ex_raw, ex_raw]) np_default_errstate) =
     np_default_errstate\<lparr>err_divide := Warn\<rparr> \<and>
   np_default_errstate\<lparr>err_divide := Warn\<rparr> = np_default_errstate \<and>
   fst (generate_slice_dataset (Inl ValueError) np_default_errstate) =
     np_default_errstate\<lparr>err_divide := Ignore\<rparr> \<and>
   fst (try_fit_skms ex_visualizer ex_skm_fit (Inl ValueError) ex_combine ex_sweep_config
          np_default_errstate 0) = np_default_errstate\<lparr>err_divide := Ignore\<rparr> \<and>
   fst (fit_skms ex_skm_fit (Inl ValueError) ex_combine (ex_fix_k_config [2])
          np_default_errstate 0) = np_default_errstate\<lparr>err_divide := Ignore\<rparr>"
proof -
  note inst = seterr_after_loading[where raws = "[ex_raw, ex_raw]" and st = np_default_errstate
      and e = ValueError and vis = ex_visualizer and fit = ex_skm_fit and comb = ex_combine
      and comb' = ex_combine and c = ex_sweep_config and cf = "ex_fix_k_config [2]" and g = 0]
  have d: "np_default_errstate\<lparr>err_divide := Warn\<rparr> = np_default_errstate"
    by (simp add: np_default_errstate_def)
  from inst d show ?thesis by blast
qed

lemma freq_max_passed:
  "mk_freq_max (infer_mel_kwargs config) = freq_max config"
  "mk_freq_max (mel_collate_kwargs config) =
     (if freq_max config > 0 then freq_max config else of_int (sample_rate config) / 2)"
  by (simp_all add: infer_mel_kwargs_def mel_collate_kwargs_def collate_freq_max_def)

text \<open>
  C7. With a configured upper bound of \<open>-1\<close> and a sample rate of 16000,
  \<open>mel_spectrogram_collate\<close> calls the transform with the upper bound 8000, and
  \<open>infer_single_audio\<close> calls it with \<open>-1\<close>: the stand-in transform, which returns the
  bound it was given as its frequency axis, returns 8000 in the batch and \<open>-1\<close> on the
  keyword arguments of single-file inference.
\<close>

theorem infer_freq_max_not_defaulted:
  "freq_max ex_mel_config = - 1 \<and> sample_rate ex_mel_config = 16000 \<and>
   mel_spec_config ex_sweep_config = ex_mel_config \<and>
   mk_freq_max (mel_collate_kwargs ex_mel_config) = 8000 \<and>
   mk_freq_max (infer_mel_kwargs (mel_spec_config ex_sweep_config)) = - 1 \<and>
   mel_spectrogram_collate ex_mel [(''a.wav'', [1, 2], 0)] ex_mel_config =
     Inr [(''a.wav'', [[1, 2]], [8000], [0], 0)] \<and>
   transform_mel_spectrogram (ex_lib []) (infer_mel_kwargs (mel_spec_config ex_sweep_config))
     [1, 2] = Inr ([[1, 2]], [- 1], [0])"
  by (simp add: ex_mel_config_def mel_collate_kwargs_def collate_freq_max_def
        infer_mel_kwargs_def ex_sweep_config_def mel_spectrogram_collate_def ex_mel_def
        ex_lib_def)

end
